theory Spec2Isabelle
  imports Main "HOL-Library.Word"
begin

unbundle bit_operations_syntax

section \<open>Bytes, slices, errors and panics\<close>

text \<open>
  A Go byte slice is modelled by the list of its elements, with capacity equal to length
  and no sharing of backing arrays between distinct slices.  A function that returns
  a value together with an \<open>error\<close> is modelled by a sum: \<open>Inl\<close> carries the error
  (the value is then \<open>nil\<close>), \<open>Inr\<close> the value.  A run-time panic is a value of
  type \<open>panic\<close> on the left of a sum.
\<close>

type_synonym byte = "8 word"
type_synonym uint16 = "16 word"

datatype goError =
    KeySizeError nat
  | GCMBlockSizeError
  | AuthenticationFailed

datatype panic =
    PanicError goError
  | NilDereference
  | SliceBoundsOutOfRange
  | IVLengthMismatch

text \<open>The builtin \<open>copy(dst, src)\<close>: the first \<open>min (len dst) (len src)\<close> bytes of
  \<open>dst\<close> are overwritten; the result is the new content of \<open>dst\<close>.\<close>

definition go_copy :: "byte list \<Rightarrow> byte list \<Rightarrow> byte list" where
  "go_copy dst src =
     (let n = min (length dst) (length src) in take n src @ drop n dst)"

text \<open>\<open>make([]byte, n)\<close>.\<close>

definition make_bytes :: "nat \<Rightarrow> byte list" where
  "make_bytes n = replicate n 0"

section \<open>The primitives of the Go standard library\<close>

text \<open>
  The file builds on \<open>crypto/aes\<close>, \<open>crypto/des\<close>, \<open>crypto/rc4\<close>, \<open>crypto/cipher\<close>,
  \<open>crypto/sha1\<close>, \<open>crypto/hmac\<close> and \<open>hash\<close>, and on one constant of its own package
  that is declared in another file.  They are not part of the file under verification.
  What the bytes of a digest or of a sealed record are is left open: the record
  \<open>externals\<close> carries the SHA-1 compression as a function on byte strings and AES-GCM
  as a pair of functions, and everything below takes an \<open>externals\<close> as a parameter.
  What the library documents about key sizes, block sizes, output sizes and the failure
  behaviour of its constructors is written out.
\<close>

record externals =
  VersionSSL30 :: uint16
  sha1_digest :: "byte list \<Rightarrow> byte list"
  gcm_seal :: "byte list \<Rightarrow> byte list \<Rightarrow> byte list \<Rightarrow> byte list \<Rightarrow> byte list"
  gcm_open :: "byte list \<Rightarrow> byte list \<Rightarrow> byte list \<Rightarrow> byte list \<Rightarrow> byte list option"

subsection \<open>hash.Hash\<close>

text \<open>A running hash: the digest function of its algorithm, its output and block sizes,
  and the bytes written since the last \<open>Reset\<close>.\<close>

record hash_Hash =
  hashDigest :: "byte list \<Rightarrow> byte list"
  hashSize :: int
  hashBlockSize :: int
  hashBuf :: "byte list"

definition Hash_Reset :: "hash_Hash \<Rightarrow> hash_Hash" where
  "Hash_Reset hh = hh\<lparr>hashBuf := []\<rparr>"

definition Hash_Write :: "hash_Hash \<Rightarrow> byte list \<Rightarrow> hash_Hash" where
  "Hash_Write hh p = hh\<lparr>hashBuf := hashBuf hh @ p\<rparr>"

text \<open>\<open>Sum(b)\<close> appends the digest of what was written to \<open>b\<close> and leaves the
  running state as it is.\<close>

definition Hash_Sum :: "hash_Hash \<Rightarrow> byte list \<Rightarrow> byte list" where
  "Hash_Sum hh b = b @ hashDigest hh (hashBuf hh)"

definition Hash_Size :: "hash_Hash \<Rightarrow> int" where
  "Hash_Size hh = hashSize hh"

definition sha1_New :: "externals \<Rightarrow> hash_Hash" where
  "sha1_New E =
     \<lparr>hashDigest = sha1_digest E, hashSize = 20, hashBlockSize = 64, hashBuf = []\<rparr>"

text \<open>\<open>hmac.New(h, key)\<close>: the keyed hash of RFC 2104 over a fresh hash \<open>h()\<close>;
  its \<open>Size\<close> and \<open>BlockSize\<close> are those of the inner hash.\<close>

definition hmac_New :: "hash_Hash \<Rightarrow> byte list \<Rightarrow> hash_Hash" where
  "hmac_New inner k =
     (let bs = nat (hashBlockSize inner);
          k0 = (if length k > bs then hashDigest inner k else k);
          kp = k0 @ replicate (bs - length k0) 0;
          ipad = map (\<lambda>b. b XOR 0x36) kp;
          opad = map (\<lambda>b. b XOR 0x5c) kp
      in \<lparr>hashDigest = (\<lambda>m. hashDigest inner (opad @ hashDigest inner (ipad @ m))),
          hashSize = hashSize inner,
          hashBlockSize = hashBlockSize inner,
          hashBuf = []\<rparr>)"

subsection \<open>Block and stream ciphers\<close>

datatype cipher_Block = aesCipher "byte list" | desTripleCipher "byte list"

datatype rc4_Cipher = rc4State "byte list"

datatype cipher_BlockMode =
    cbcEncrypter cipher_Block "byte list"
  | cbcDecrypter cipher_Block "byte list"

definition Block_BlockSize :: "cipher_Block \<Rightarrow> int" where
  "Block_BlockSize b = (case b of aesCipher _ \<Rightarrow> 16 | desTripleCipher _ \<Rightarrow> 8)"

text \<open>\<open>aes.NewCipher\<close> accepts keys of 16, 24 or 32 bytes.\<close>

definition aes_NewCipher :: "byte list \<Rightarrow> goError + cipher_Block" where
  "aes_NewCipher k =
     (if length k = 16 \<or> length k = 24 \<or> length k = 32 then Inr (aesCipher k)
      else Inl (KeySizeError (length k)))"

text \<open>\<open>des.NewTripleDESCipher\<close> accepts keys of 24 bytes.\<close>

definition des_NewTripleDESCipher :: "byte list \<Rightarrow> goError + cipher_Block" where
  "des_NewTripleDESCipher k =
     (if length k = 24 then Inr (desTripleCipher k) else Inl (KeySizeError (length k)))"

text \<open>\<open>rc4.NewCipher\<close> accepts keys of 1 to 256 bytes.\<close>

definition rc4_NewCipher :: "byte list \<Rightarrow> goError + rc4_Cipher" where
  "rc4_NewCipher k =
     (if length k < 1 \<or> length k > 256 then Inl (KeySizeError (length k))
      else Inr (rc4State k))"

text \<open>\<open>cipher.NewCBCEncrypter(b, iv)\<close> and \<open>cipher.NewCBCDecrypter(b, iv)\<close> call
  \<open>b.BlockSize()\<close>, which dereferences a nil interface when \<open>b\<close> is \<open>nil\<close>, and panic
  when the IV is not one block long.\<close>

definition cipher_NewCBCEncrypter ::
  "cipher_Block option \<Rightarrow> byte list \<Rightarrow> panic + cipher_BlockMode" where
  "cipher_NewCBCEncrypter b iv =
     (case b of
        None \<Rightarrow> Inl NilDereference
      | Some blk \<Rightarrow>
          if int (length iv) \<noteq> Block_BlockSize blk then Inl IVLengthMismatch
          else Inr (cbcEncrypter blk iv))"

definition cipher_NewCBCDecrypter ::
  "cipher_Block option \<Rightarrow> byte list \<Rightarrow> panic + cipher_BlockMode" where
  "cipher_NewCBCDecrypter b iv =
     (case b of
        None \<Rightarrow> Inl NilDereference
      | Some blk \<Rightarrow>
          if int (length iv) \<noteq> Block_BlockSize blk then Inl IVLengthMismatch
          else Inr (cbcDecrypter blk iv))"

subsection \<open>cipher.AEAD\<close>

text \<open>The interface \<open>cipher.AEAD\<close> as the record of its methods.  \<open>Seal\<close> and \<open>Open\<close>
  take \<open>dst\<close>, the nonce, the text and the additional data, and append to \<open>dst\<close>.\<close>

record cipher_AEAD =
  aeadNonceSize :: int
  aeadOverhead :: int
  aeadSeal :: "byte list \<Rightarrow> byte list \<Rightarrow> byte list \<Rightarrow> byte list \<Rightarrow> byte list"
  aeadOpen :: "byte list \<Rightarrow> byte list \<Rightarrow> byte list \<Rightarrow> byte list \<Rightarrow> goError + byte list"

text \<open>\<open>cipher.NewGCM\<close> wants a cipher with 128-bit blocks; its nonce has 12 bytes and
  its tag 16.\<close>

definition cipher_NewGCM :: "externals \<Rightarrow> cipher_Block \<Rightarrow> goError + cipher_AEAD" where
  "cipher_NewGCM E blk =
     (case blk of
        desTripleCipher _ \<Rightarrow> Inl GCMBlockSizeError
      | aesCipher k \<Rightarrow>
          Inr \<lparr>aeadNonceSize = 12,
               aeadOverhead = 16,
               aeadSeal = (\<lambda>dst nonce plaintext ad. dst @ gcm_seal E k nonce plaintext ad),
               aeadOpen = (\<lambda>dst nonce ciphertext ad.
                  case gcm_open E k nonce ciphertext ad of
                    None \<Rightarrow> Inl AuthenticationFailed
                  | Some plaintext \<Rightarrow> Inr (dst @ plaintext))\<rparr>)"

section \<open>Key agreements and suite flags\<close>

text \<open>The key agreement types and the signature kinds are declared elsewhere in the
  package; only the constructors that the table names are modelled.\<close>

datatype signatureType = signatureRSA | signatureECDSA

datatype keyAgreement =
    rsaKeyAgreement
  | rsaExportKeyAgreement signatureType uint16
  | ecdheKeyAgreement signatureType uint16

definition suiteECDHE :: int where
  "suiteECDHE = push_bit 0 1"

definition suiteECDSA :: int where
  "suiteECDSA = push_bit 1 1"

definition suiteTLS12 :: int where
  "suiteTLS12 = push_bit 2 1"

definition rsaExportKA :: "uint16 \<Rightarrow> keyAgreement" where
  "rsaExportKA version = rsaExportKeyAgreement signatureRSA version"

definition rsaKA :: "uint16 \<Rightarrow> keyAgreement" where
  "rsaKA version = rsaKeyAgreement"

definition ecdheECDSAKA :: "uint16 \<Rightarrow> keyAgreement" where
  "ecdheECDSAKA version = ecdheKeyAgreement signatureECDSA version"

definition ecdheRSAKA :: "uint16 \<Rightarrow> keyAgreement" where
  "ecdheRSAKA version = ecdheKeyAgreement signatureRSA version"

section \<open>Cipher factories\<close>

text \<open>What a \<open>cipher\<close> factory returns as \<open>interface{}\<close>: a \<open>*rc4.Cipher\<close>, which may be
  the nil pointer, or a CBC block mode.\<close>

datatype cipherValue =
    streamRC4 "rc4_Cipher option"
  | blockMode cipher_BlockMode

text \<open>\<open>v, _ := f(k)\<close>: the error is dropped and \<open>v\<close> is nil when there was one.\<close>

definition dropError :: "goError + 'a \<Rightarrow> 'a option" where
  "dropError r = (case r of Inl _ \<Rightarrow> None | Inr v \<Rightarrow> Some v)"

definition cipherRC4 :: "byte list \<Rightarrow> byte list \<Rightarrow> bool \<Rightarrow> panic + cipherValue" where
  "cipherRC4 k iv isRead = Inr (streamRC4 (dropError (rc4_NewCipher k)))"

definition cipher3DES :: "byte list \<Rightarrow> byte list \<Rightarrow> bool \<Rightarrow> panic + cipherValue" where
  "cipher3DES k iv isRead =
     (let block = dropError (des_NewTripleDESCipher k)
      in if isRead then map_sum id blockMode (cipher_NewCBCDecrypter block iv)
         else map_sum id blockMode (cipher_NewCBCEncrypter block iv))"

definition cipherAES :: "byte list \<Rightarrow> byte list \<Rightarrow> bool \<Rightarrow> panic + cipherValue" where
  "cipherAES k iv isRead =
     (let block = dropError (aes_NewCipher k)
      in if isRead then map_sum id blockMode (cipher_NewCBCDecrypter block iv)
         else map_sum id blockMode (cipher_NewCBCEncrypter block iv))"

section \<open>MAC functions\<close>

record ssl30MAC =
  ssl30_h :: hash_Hash
  ssl30_key :: "byte list"

record tls10MAC =
  tls10_h :: hash_Hash

datatype macFunction = macSSL30 ssl30MAC | macTLS10 tls10MAC

definition macSHA1 :: "externals \<Rightarrow> uint16 \<Rightarrow> byte list \<Rightarrow> macFunction" where
  "macSHA1 E version k =
     (if version = VersionSSL30 E then
        macSSL30 \<lparr>ssl30_h = sha1_New E, ssl30_key = go_copy (make_bytes (length k)) k\<rparr>
      else macTLS10 \<lparr>tls10_h = hmac_New (sha1_New E) k\<rparr>)"

definition ssl30MAC_Size :: "ssl30MAC \<Rightarrow> int" where
  "ssl30MAC_Size s = Hash_Size (ssl30_h s)"

definition ssl30Pad1 :: "byte list" where
  "ssl30Pad1 =
     [0x36, 0x36, 0x36, 0x36, 0x36, 0x36, 0x36, 0x36, 0x36, 0x36, 0x36, 0x36,
      0x36, 0x36, 0x36, 0x36, 0x36, 0x36, 0x36, 0x36, 0x36, 0x36, 0x36, 0x36,
      0x36, 0x36, 0x36, 0x36, 0x36, 0x36, 0x36, 0x36, 0x36, 0x36, 0x36, 0x36,
      0x36, 0x36, 0x36, 0x36, 0x36, 0x36, 0x36, 0x36, 0x36, 0x36, 0x36, 0x36]"

definition ssl30Pad2 :: "byte list" where
  "ssl30Pad2 =
     [0x5c, 0x5c, 0x5c, 0x5c, 0x5c, 0x5c, 0x5c, 0x5c, 0x5c, 0x5c, 0x5c, 0x5c,
      0x5c, 0x5c, 0x5c, 0x5c, 0x5c, 0x5c, 0x5c, 0x5c, 0x5c, 0x5c, 0x5c, 0x5c,
      0x5c, 0x5c, 0x5c, 0x5c, 0x5c, 0x5c, 0x5c, 0x5c, 0x5c, 0x5c, 0x5c, 0x5c,
      0x5c, 0x5c, 0x5c, 0x5c, 0x5c, 0x5c, 0x5c, 0x5c, 0x5c, 0x5c, 0x5c, 0x5c]"

text \<open>The slice expression \<open>b[lo:hi]\<close>; it panics unless \<open>lo \<le> hi \<le> cap b\<close>.\<close>

definition slice :: "byte list \<Rightarrow> nat \<Rightarrow> nat \<Rightarrow> panic + byte list" where
  "slice b lo hi =
     (if lo \<le> hi \<and> hi \<le> length b then Inr (take (hi - lo) (drop lo b))
      else Inl SliceBoundsOutOfRange)"

definition ssl30_padLength :: "ssl30MAC \<Rightarrow> int" where
  "ssl30_padLength s = (if Hash_Size (ssl30_h s) = 20 then 40 else 48)"

text \<open>
  \<open>ssl30MAC.MAC\<close>.  The hash behind \<open>s.h\<close> is shared with the caller's copy of \<open>s\<close>,
  so the MAC is returned together with \<open>s\<close> holding the hash in its final state.
  The two pad slices are within the 48 bytes of the arrays for both values of
  \<open>padLength\<close>.
\<close>

definition ssl30MAC_MAC ::
  "ssl30MAC \<Rightarrow> byte list \<Rightarrow> byte list \<Rightarrow> byte list \<Rightarrow> byte list
     \<Rightarrow> panic + (ssl30MAC \<times> byte list)" where
  "ssl30MAC_MAC s digestBuf seq header data =
     (let padLength = nat (ssl30_padLength s);
          h1 = Hash_Reset (ssl30_h s);
          h2 = Hash_Write h1 (ssl30_key s);
          h3 = Hash_Write h2 (take padLength ssl30Pad1);
          h4 = Hash_Write h3 seq
      in case slice header 0 1 of
           Inl p \<Rightarrow> Inl p
         | Inr header01 \<Rightarrow>
             (let h5 = Hash_Write h4 header01
              in case slice header 3 5 of
                   Inl p \<Rightarrow> Inl p
                 | Inr header35 \<Rightarrow>
                     (let h6 = Hash_Write h5 header35;
                          h7 = Hash_Write h6 data;
                          digestBuf1 = Hash_Sum h7 (take 0 digestBuf);
                          h8 = Hash_Reset h7;
                          h9 = Hash_Write h8 (ssl30_key s);
                          h10 = Hash_Write h9 (take padLength ssl30Pad2);
                          h11 = Hash_Write h10 digestBuf1
                      in Inr (s\<lparr>ssl30_h := h11\<rparr>, Hash_Sum h11 (take 0 digestBuf1)))))"

definition tls10MAC_Size :: "tls10MAC \<Rightarrow> int" where
  "tls10MAC_Size s = Hash_Size (tls10_h s)"

definition tls10MAC_MAC ::
  "tls10MAC \<Rightarrow> byte list \<Rightarrow> byte list \<Rightarrow> byte list \<Rightarrow> byte list \<Rightarrow> tls10MAC \<times> byte list" where
  "tls10MAC_MAC s digestBuf seq header data =
     (let h1 = Hash_Reset (tls10_h s);
          h2 = Hash_Write h1 seq;
          h3 = Hash_Write h2 header;
          h4 = Hash_Write h3 data
      in (s\<lparr>tls10_h := h4\<rparr>, Hash_Sum h4 (take 0 digestBuf)))"

text \<open>The method \<open>Size\<close> of the interface \<open>macFunction\<close>, by dynamic type.\<close>

definition macFunction_Size :: "macFunction \<Rightarrow> int" where
  "macFunction_Size m = (case m of macSSL30 s \<Rightarrow> ssl30MAC_Size s | macTLS10 s \<Rightarrow> tls10MAC_Size s)"

section \<open>The fixed-nonce AEAD\<close>

text \<open>The field \<open>aead\<close> of the struct is named \<open>wrapped\<close> here, since the suite record
  has a field \<open>aead\<close> too.\<close>

record fixedNonceAEAD =
  sealNonce :: "byte list"
  openNonce :: "byte list"
  wrapped :: cipher_AEAD

definition fixedNonceAEAD_NonceSize :: "fixedNonceAEAD \<Rightarrow> int" where
  "fixedNonceAEAD_NonceSize f = 8"

definition fixedNonceAEAD_Overhead :: "fixedNonceAEAD \<Rightarrow> int" where
  "fixedNonceAEAD_Overhead f = aeadOverhead (wrapped f)"

text \<open>\<open>copy(buf[len(buf)-8:], nonce)\<close>: the slice expression panics when \<open>buf\<close> has fewer
  than 8 bytes; otherwise the last 8 bytes of \<open>buf\<close> are the destination of the copy.\<close>

definition copyLast8 :: "byte list \<Rightarrow> byte list \<Rightarrow> panic + byte list" where
  "copyLast8 buf nonce =
     (if length buf < 8 then Inl SliceBoundsOutOfRange
      else Inr (take (length buf - 8) buf @ go_copy (drop (length buf - 8) buf) nonce))"

definition fixedNonceAEAD_Seal ::
  "fixedNonceAEAD \<Rightarrow> byte list \<Rightarrow> byte list \<Rightarrow> byte list \<Rightarrow> byte list
     \<Rightarrow> panic + (fixedNonceAEAD \<times> byte list)" where
  "fixedNonceAEAD_Seal f out nonce plaintext additionalData =
     (case copyLast8 (sealNonce f) nonce of
        Inl p \<Rightarrow> Inl p
      | Inr buf \<Rightarrow>
          Inr (f\<lparr>sealNonce := buf\<rparr>, aeadSeal (wrapped f) out buf plaintext additionalData))"

definition fixedNonceAEAD_Open ::
  "fixedNonceAEAD \<Rightarrow> byte list \<Rightarrow> byte list \<Rightarrow> byte list \<Rightarrow> byte list
     \<Rightarrow> panic + (fixedNonceAEAD \<times> (goError + byte list))" where
  "fixedNonceAEAD_Open f out nonce plaintext additionalData =
     (case copyLast8 (openNonce f) nonce of
        Inl p \<Rightarrow> Inl p
      | Inr buf \<Rightarrow>
          Inr (f\<lparr>openNonce := buf\<rparr>, aeadOpen (wrapped f) out buf plaintext additionalData))"

definition aeadAESGCM :: "externals \<Rightarrow> byte list \<Rightarrow> byte list \<Rightarrow> panic + fixedNonceAEAD" where
  "aeadAESGCM E k fixedNonce =
     (case aes_NewCipher k of
        Inl err \<Rightarrow> Inl (PanicError err)
      | Inr aes \<Rightarrow>
          (case cipher_NewGCM E aes of
             Inl err \<Rightarrow> Inl (PanicError err)
           | Inr gcm \<Rightarrow>
               (let nonce1 = go_copy (make_bytes 12) fixedNonce;
                    nonce2 = go_copy (make_bytes 12) fixedNonce
                in Inr \<lparr>sealNonce = nonce1, openNonce = nonce2, wrapped = gcm\<rparr>)))"

section \<open>Suite identifiers\<close>

named_theorems suite_ids

definition TLS_RSA_WITH_RC4_128_SHA :: uint16 where [suite_ids]:
  "TLS_RSA_WITH_RC4_128_SHA = 0x0005"

definition TLS_RSA_WITH_3DES_EDE_CBC_SHA :: uint16 where [suite_ids]:
  "TLS_RSA_WITH_3DES_EDE_CBC_SHA = 0x000a"

definition TLS_RSA_WITH_AES_128_CBC_SHA :: uint16 where [suite_ids]:
  "TLS_RSA_WITH_AES_128_CBC_SHA = 0x002f"

definition TLS_RSA_WITH_AES_256_CBC_SHA :: uint16 where [suite_ids]:
  "TLS_RSA_WITH_AES_256_CBC_SHA = 0x0035"

definition TLS_RSA_WITH_AES_128_GCM_SHA256 :: uint16 where [suite_ids]:
  "TLS_RSA_WITH_AES_128_GCM_SHA256 = 0x009C"

definition TLS_ECDHE_ECDSA_WITH_RC4_128_SHA :: uint16 where [suite_ids]:
  "TLS_ECDHE_ECDSA_WITH_RC4_128_SHA = 0xc007"

definition TLS_ECDHE_ECDSA_WITH_AES_128_CBC_SHA :: uint16 where [suite_ids]:
  "TLS_ECDHE_ECDSA_WITH_AES_128_CBC_SHA = 0xc009"

definition TLS_ECDHE_ECDSA_WITH_AES_256_CBC_SHA :: uint16 where [suite_ids]:
  "TLS_ECDHE_ECDSA_WITH_AES_256_CBC_SHA = 0xc00a"

definition TLS_ECDHE_RSA_WITH_RC4_128_SHA :: uint16 where [suite_ids]:
  "TLS_ECDHE_RSA_WITH_RC4_128_SHA = 0xc011"

definition TLS_ECDHE_RSA_WITH_3DES_EDE_CBC_SHA :: uint16 where [suite_ids]:
  "TLS_ECDHE_RSA_WITH_3DES_EDE_CBC_SHA = 0xc012"

definition TLS_ECDHE_RSA_WITH_AES_128_CBC_SHA :: uint16 where [suite_ids]:
  "TLS_ECDHE_RSA_WITH_AES_128_CBC_SHA = 0xc013"

definition TLS_ECDHE_RSA_WITH_AES_256_CBC_SHA :: uint16 where [suite_ids]:
  "TLS_ECDHE_RSA_WITH_AES_256_CBC_SHA = 0xc014"

definition TLS_ECDHE_RSA_WITH_AES_128_GCM_SHA256 :: uint16 where [suite_ids]:
  "TLS_ECDHE_RSA_WITH_AES_128_GCM_SHA256 = 0xc02f"

definition TLS_ECDHE_ECDSA_WITH_AES_128_GCM_SHA256 :: uint16 where [suite_ids]:
  "TLS_ECDHE_ECDSA_WITH_AES_128_GCM_SHA256 = 0xc02b"

definition TLS_RSA_WITH_RC4_128_MD5 :: uint16 where [suite_ids]:
  "TLS_RSA_WITH_RC4_128_MD5 = 0x0004"

definition TLS_RSA_EXPORT_WITH_RC4_40_MD5 :: uint16 where [suite_ids]:
  "TLS_RSA_EXPORT_WITH_RC4_40_MD5 = 0x0003"

definition TLS_RSA_EXPORT_WITH_RC2_CBC_40_MD5 :: uint16 where [suite_ids]:
  "TLS_RSA_EXPORT_WITH_RC2_CBC_40_MD5 = 0x0006"

definition TLS_RSA_EXPORT_WITH_DES40_CBC_SHA :: uint16 where [suite_ids]:
  "TLS_RSA_EXPORT_WITH_DES40_CBC_SHA = 0x0008"

definition TLS_DH_DSS_EXPORT_WITH_DES40_CBC_SHA :: uint16 where [suite_ids]:
  "TLS_DH_DSS_EXPORT_WITH_DES40_CBC_SHA = 0x000B"

definition TLS_DH_RSA_EXPORT_WITH_DES40_CBC_SHA :: uint16 where [suite_ids]:
  "TLS_DH_RSA_EXPORT_WITH_DES40_CBC_SHA = 0x000E"

definition TLS_DHE_DSS_EXPORT_WITH_DES40_CBC_SHA :: uint16 where [suite_ids]:
  "TLS_DHE_DSS_EXPORT_WITH_DES40_CBC_SHA = 0x0011"

definition TLS_DHE_RSA_EXPORT_WITH_DES40_CBC_SHA :: uint16 where [suite_ids]:
  "TLS_DHE_RSA_EXPORT_WITH_DES40_CBC_SHA = 0x0014"

definition TLS_DH_anon_EXPORT_WITH_RC4_40_MD5 :: uint16 where [suite_ids]:
  "TLS_DH_anon_EXPORT_WITH_RC4_40_MD5 = 0x0017"

definition TLS_DH_anon_EXPORT_WITH_DES40_CBC_SHA :: uint16 where [suite_ids]:
  "TLS_DH_anon_EXPORT_WITH_DES40_CBC_SHA = 0x0019"

definition TLS_KRB5_EXPORT_WITH_DES_CBC_40_SHA :: uint16 where [suite_ids]:
  "TLS_KRB5_EXPORT_WITH_DES_CBC_40_SHA = 0x0026"

definition TLS_KRB5_EXPORT_WITH_RC2_CBC_40_SHA :: uint16 where [suite_ids]:
  "TLS_KRB5_EXPORT_WITH_RC2_CBC_40_SHA = 0x0027"

definition TLS_KRB5_EXPORT_WITH_RC4_40_SHA :: uint16 where [suite_ids]:
  "TLS_KRB5_EXPORT_WITH_RC4_40_SHA = 0x0028"

definition TLS_KRB5_EXPORT_WITH_DES_CBC_40_MD5 :: uint16 where [suite_ids]:
  "TLS_KRB5_EXPORT_WITH_DES_CBC_40_MD5 = 0x0029"

definition TLS_KRB5_EXPORT_WITH_RC2_CBC_40_MD5 :: uint16 where [suite_ids]:
  "TLS_KRB5_EXPORT_WITH_RC2_CBC_40_MD5 = 0x002A"

definition TLS_KRB5_EXPORT_WITH_RC4_40_MD5 :: uint16 where [suite_ids]:
  "TLS_KRB5_EXPORT_WITH_RC4_40_MD5 = 0x002B"

definition TLS_RSA_EXPORT1024_WITH_RC4_56_MD5 :: uint16 where [suite_ids]:
  "TLS_RSA_EXPORT1024_WITH_RC4_56_MD5 = 0x0060"

definition TLS_RSA_EXPORT1024_WITH_RC2_CBC_56_MD5 :: uint16 where [suite_ids]:
  "TLS_RSA_EXPORT1024_WITH_RC2_CBC_56_MD5 = 0x0061"

definition TLS_RSA_EXPORT1024_WITH_DES_CBC_SHA :: uint16 where [suite_ids]:
  "TLS_RSA_EXPORT1024_WITH_DES_CBC_SHA = 0x0062"

definition TLS_DHE_DSS_EXPORT1024_WITH_DES_CBC_SHA :: uint16 where [suite_ids]:
  "TLS_DHE_DSS_EXPORT1024_WITH_DES_CBC_SHA = 0x0063"

definition TLS_RSA_EXPORT1024_WITH_RC4_56_SHA :: uint16 where [suite_ids]:
  "TLS_RSA_EXPORT1024_WITH_RC4_56_SHA = 0x0064"

definition TLS_DHE_DSS_EXPORT1024_WITH_RC4_56_SHA :: uint16 where [suite_ids]:
  "TLS_DHE_DSS_EXPORT1024_WITH_RC4_56_SHA = 0x0065"

definition TLS_DHE_DSS_WITH_DES_CBC_SHA :: uint16 where [suite_ids]:
  "TLS_DHE_DSS_WITH_DES_CBC_SHA = 0x0012"

definition TLS_DHE_DSS_WITH_3DES_EDE_CBC_SHA :: uint16 where [suite_ids]:
  "TLS_DHE_DSS_WITH_3DES_EDE_CBC_SHA = 0x0013"

definition TLS_DHE_RSA_WITH_DES_CBC_SHA :: uint16 where [suite_ids]:
  "TLS_DHE_RSA_WITH_DES_CBC_SHA = 0x0015"

definition TLS_DHE_RSA_WITH_3DES_EDE_CBC_SHA :: uint16 where [suite_ids]:
  "TLS_DHE_RSA_WITH_3DES_EDE_CBC_SHA = 0x0016"

definition TLS_DHE_DSS_WITH_AES_128_CBC_SHA :: uint16 where [suite_ids]:
  "TLS_DHE_DSS_WITH_AES_128_CBC_SHA = 0x0032"

definition TLS_DHE_RSA_WITH_AES_128_CBC_SHA :: uint16 where [suite_ids]:
  "TLS_DHE_RSA_WITH_AES_128_CBC_SHA = 0x0033"

definition TLS_DHE_DSS_WITH_AES_256_CBC_SHA :: uint16 where [suite_ids]:
  "TLS_DHE_DSS_WITH_AES_256_CBC_SHA = 0x0038"

definition TLS_DHE_RSA_WITH_AES_256_CBC_SHA :: uint16 where [suite_ids]:
  "TLS_DHE_RSA_WITH_AES_256_CBC_SHA = 0x0039"

definition TLS_DHE_DSS_WITH_AES_128_CBC_SHA256 :: uint16 where [suite_ids]:
  "TLS_DHE_DSS_WITH_AES_128_CBC_SHA256 = 0x0040"

definition TLS_DHE_DSS_WITH_CAMELLIA_128_CBC_SHA :: uint16 where [suite_ids]:
  "TLS_DHE_DSS_WITH_CAMELLIA_128_CBC_SHA = 0x0044"

definition TLS_DHE_RSA_WITH_CAMELLIA_128_CBC_SHA :: uint16 where [suite_ids]:
  "TLS_DHE_RSA_WITH_CAMELLIA_128_CBC_SHA = 0x0045"

definition TLS_DHE_DSS_WITH_RC4_128_SHA :: uint16 where [suite_ids]:
  "TLS_DHE_DSS_WITH_RC4_128_SHA = 0x0066"

definition TLS_DHE_RSA_WITH_AES_128_CBC_SHA256 :: uint16 where [suite_ids]:
  "TLS_DHE_RSA_WITH_AES_128_CBC_SHA256 = 0x0067"

definition TLS_DHE_DSS_WITH_AES_256_CBC_SHA256 :: uint16 where [suite_ids]:
  "TLS_DHE_DSS_WITH_AES_256_CBC_SHA256 = 0x006A"

definition TLS_DHE_RSA_WITH_AES_256_CBC_SHA256 :: uint16 where [suite_ids]:
  "TLS_DHE_RSA_WITH_AES_256_CBC_SHA256 = 0x006B"

definition TLS_DHE_DSS_WITH_CAMELLIA_256_CBC_SHA :: uint16 where [suite_ids]:
  "TLS_DHE_DSS_WITH_CAMELLIA_256_CBC_SHA = 0x0087"

definition TLS_DHE_RSA_WITH_CAMELLIA_256_CBC_SHA :: uint16 where [suite_ids]:
  "TLS_DHE_RSA_WITH_CAMELLIA_256_CBC_SHA = 0x0088"

definition TLS_DHE_DSS_WITH_SEED_CBC_SHA :: uint16 where [suite_ids]:
  "TLS_DHE_DSS_WITH_SEED_CBC_SHA = 0x0099"

definition TLS_DHE_RSA_WITH_SEED_CBC_SHA :: uint16 where [suite_ids]:
  "TLS_DHE_RSA_WITH_SEED_CBC_SHA = 0x009A"

definition TLS_DHE_RSA_WITH_AES_128_GCM_SHA256 :: uint16 where [suite_ids]:
  "TLS_DHE_RSA_WITH_AES_128_GCM_SHA256 = 0x009E"

definition TLS_DHE_RSA_WITH_AES_256_GCM_SHA384 :: uint16 where [suite_ids]:
  "TLS_DHE_RSA_WITH_AES_256_GCM_SHA384 = 0x009F"

definition TLS_DHE_DSS_WITH_AES_128_GCM_SHA256 :: uint16 where [suite_ids]:
  "TLS_DHE_DSS_WITH_AES_128_GCM_SHA256 = 0x00A2"

definition TLS_DHE_DSS_WITH_AES_256_GCM_SHA384 :: uint16 where [suite_ids]:
  "TLS_DHE_DSS_WITH_AES_256_GCM_SHA384 = 0x00A3"

definition TLS_DHE_DSS_WITH_CAMELLIA_128_CBC_SHA256 :: uint16 where [suite_ids]:
  "TLS_DHE_DSS_WITH_CAMELLIA_128_CBC_SHA256 = 0x00BD"

definition TLS_DHE_RSA_WITH_CAMELLIA_128_CBC_SHA256 :: uint16 where [suite_ids]:
  "TLS_DHE_RSA_WITH_CAMELLIA_128_CBC_SHA256 = 0x00BE"

definition TLS_DHE_DSS_WITH_CAMELLIA_256_CBC_SHA256 :: uint16 where [suite_ids]:
  "TLS_DHE_DSS_WITH_CAMELLIA_256_CBC_SHA256 = 0x00C3"

definition TLS_DHE_RSA_WITH_CAMELLIA_256_CBC_SHA256 :: uint16 where [suite_ids]:
  "TLS_DHE_RSA_WITH_CAMELLIA_256_CBC_SHA256 = 0x00C4"

definition TLS_DHE_DSS_WITH_ARIA_128_CBC_SHA256 :: uint16 where [suite_ids]:
  "TLS_DHE_DSS_WITH_ARIA_128_CBC_SHA256 = 0xC042"

definition TLS_DHE_DSS_WITH_ARIA_256_CBC_SHA384 :: uint16 where [suite_ids]:
  "TLS_DHE_DSS_WITH_ARIA_256_CBC_SHA384 = 0xC043"

definition TLS_DHE_RSA_WITH_ARIA_128_CBC_SHA256 :: uint16 where [suite_ids]:
  "TLS_DHE_RSA_WITH_ARIA_128_CBC_SHA256 = 0xC044"

definition TLS_DHE_RSA_WITH_ARIA_256_CBC_SHA384 :: uint16 where [suite_ids]:
  "TLS_DHE_RSA_WITH_ARIA_256_CBC_SHA384 = 0xC045"

definition TLS_DHE_RSA_WITH_ARIA_128_GCM_SHA256 :: uint16 where [suite_ids]:
  "TLS_DHE_RSA_WITH_ARIA_128_GCM_SHA256 = 0xC052"

definition TLS_DHE_RSA_WITH_ARIA_256_GCM_SHA384 :: uint16 where [suite_ids]:
  "TLS_DHE_RSA_WITH_ARIA_256_GCM_SHA384 = 0xC053"

definition TLS_DHE_DSS_WITH_ARIA_128_GCM_SHA256 :: uint16 where [suite_ids]:
  "TLS_DHE_DSS_WITH_ARIA_128_GCM_SHA256 = 0xC056"

definition TLS_DHE_DSS_WITH_ARIA_256_GCM_SHA384 :: uint16 where [suite_ids]:
  "TLS_DHE_DSS_WITH_ARIA_256_GCM_SHA384 = 0xC057"

definition TLS_DHE_RSA_WITH_CAMELLIA_128_GCM_SHA256 :: uint16 where [suite_ids]:
  "TLS_DHE_RSA_WITH_CAMELLIA_128_GCM_SHA256 = 0xC07C"

definition TLS_DHE_RSA_WITH_CAMELLIA_256_GCM_SHA384 :: uint16 where [suite_ids]:
  "TLS_DHE_RSA_WITH_CAMELLIA_256_GCM_SHA384 = 0xC07D"

definition TLS_DHE_DSS_WITH_CAMELLIA_128_GCM_SHA256 :: uint16 where [suite_ids]:
  "TLS_DHE_DSS_WITH_CAMELLIA_128_GCM_SHA256 = 0xC080"

definition TLS_DHE_DSS_WITH_CAMELLIA_256_GCM_SHA384 :: uint16 where [suite_ids]:
  "TLS_DHE_DSS_WITH_CAMELLIA_256_GCM_SHA384 = 0xC081"

definition TLS_DHE_RSA_WITH_AES_128_CCM :: uint16 where [suite_ids]:
  "TLS_DHE_RSA_WITH_AES_128_CCM = 0xC09E"

definition TLS_DHE_RSA_WITH_AES_256_CCM :: uint16 where [suite_ids]:
  "TLS_DHE_RSA_WITH_AES_256_CCM = 0xC09F"

definition TLS_DHE_RSA_WITH_AES_128_CCM_8 :: uint16 where [suite_ids]:
  "TLS_DHE_RSA_WITH_AES_128_CCM_8 = 0xC0A2"

definition TLS_DHE_RSA_WITH_AES_256_CCM_8 :: uint16 where [suite_ids]:
  "TLS_DHE_RSA_WITH_AES_256_CCM_8 = 0xC0A3"

definition TLS_DHE_RSA_WITH_CHACHA20_POLY1305_SHA256 :: uint16 where [suite_ids]:
  "TLS_DHE_RSA_WITH_CHACHA20_POLY1305_SHA256 = 0xCC15"

definition TLS_ECDHE_ECDSA_WITH_CHACHA20_POLY1305_SHA256 :: uint16 where [suite_ids]:
  "TLS_ECDHE_ECDSA_WITH_CHACHA20_POLY1305_SHA256 = 0xCC14"

definition TLS_ECDHE_RSA_WITH_CHACHA20_POLY1305_SHA256 :: uint16 where [suite_ids]:
  "TLS_ECDHE_RSA_WITH_CHACHA20_POLY1305_SHA256 = 0xCC13"


section \<open>The catalog of suite lists\<close>

definition RSACiphers :: "uint16 list" where
  "RSACiphers =
    [TLS_RSA_WITH_RC4_128_SHA,
     TLS_RSA_WITH_3DES_EDE_CBC_SHA,
     TLS_RSA_WITH_AES_128_CBC_SHA,
     TLS_RSA_WITH_AES_256_CBC_SHA,
     TLS_RSA_WITH_AES_128_GCM_SHA256]"

definition DHECiphers :: "uint16 list" where
  "DHECiphers =
    [TLS_DHE_DSS_WITH_DES_CBC_SHA,
     TLS_DHE_DSS_WITH_3DES_EDE_CBC_SHA,
     TLS_DHE_RSA_WITH_DES_CBC_SHA,
     TLS_DHE_RSA_WITH_3DES_EDE_CBC_SHA,
     TLS_DHE_DSS_WITH_AES_128_CBC_SHA,
     TLS_DHE_RSA_WITH_AES_128_CBC_SHA,
     TLS_DHE_DSS_WITH_AES_256_CBC_SHA,
     TLS_DHE_RSA_WITH_AES_256_CBC_SHA,
     TLS_DHE_DSS_WITH_AES_128_CBC_SHA256,
     TLS_DHE_DSS_WITH_CAMELLIA_128_CBC_SHA,
     TLS_DHE_RSA_WITH_CAMELLIA_128_CBC_SHA,
     TLS_DHE_DSS_WITH_RC4_128_SHA,
     TLS_DHE_RSA_WITH_AES_128_CBC_SHA256,
     TLS_DHE_DSS_WITH_AES_256_CBC_SHA256,
     TLS_DHE_RSA_WITH_AES_256_CBC_SHA256,
     TLS_DHE_DSS_WITH_CAMELLIA_256_CBC_SHA,
     TLS_DHE_RSA_WITH_CAMELLIA_256_CBC_SHA,
     TLS_DHE_DSS_WITH_SEED_CBC_SHA,
     TLS_DHE_RSA_WITH_SEED_CBC_SHA,
     TLS_DHE_RSA_WITH_AES_128_GCM_SHA256,
     TLS_DHE_RSA_WITH_AES_256_GCM_SHA384,
     TLS_DHE_DSS_WITH_AES_128_GCM_SHA256,
     TLS_DHE_DSS_WITH_AES_256_GCM_SHA384,
     TLS_DHE_DSS_WITH_CAMELLIA_128_CBC_SHA256,
     TLS_DHE_RSA_WITH_CAMELLIA_128_CBC_SHA256,
     TLS_DHE_DSS_WITH_CAMELLIA_256_CBC_SHA256,
     TLS_DHE_RSA_WITH_CAMELLIA_256_CBC_SHA256,
     TLS_DHE_DSS_WITH_ARIA_128_CBC_SHA256,
     TLS_DHE_DSS_WITH_ARIA_256_CBC_SHA384,
     TLS_DHE_RSA_WITH_ARIA_128_CBC_SHA256,
     TLS_DHE_RSA_WITH_ARIA_256_CBC_SHA384,
     TLS_DHE_RSA_WITH_ARIA_128_GCM_SHA256,
     TLS_DHE_RSA_WITH_ARIA_256_GCM_SHA384,
     TLS_DHE_DSS_WITH_ARIA_128_GCM_SHA256,
     TLS_DHE_DSS_WITH_ARIA_256_GCM_SHA384,
     TLS_DHE_RSA_WITH_CAMELLIA_128_GCM_SHA256,
     TLS_DHE_RSA_WITH_CAMELLIA_256_GCM_SHA384,
     TLS_DHE_DSS_WITH_CAMELLIA_128_GCM_SHA256,
     TLS_DHE_DSS_WITH_CAMELLIA_256_GCM_SHA384,
     TLS_DHE_RSA_WITH_AES_128_CCM,
     TLS_DHE_RSA_WITH_AES_256_CCM,
     TLS_DHE_RSA_WITH_AES_128_CCM_8,
     TLS_DHE_RSA_WITH_AES_256_CCM_8,
     TLS_DHE_RSA_WITH_CHACHA20_POLY1305_SHA256]"

definition ExportCiphers :: "uint16 list" where
  "ExportCiphers =
    [TLS_RSA_EXPORT_WITH_RC4_40_MD5,
     TLS_RSA_EXPORT_WITH_RC2_CBC_40_MD5,
     TLS_RSA_EXPORT_WITH_DES40_CBC_SHA,
     TLS_DH_DSS_EXPORT_WITH_DES40_CBC_SHA,
     TLS_DH_RSA_EXPORT_WITH_DES40_CBC_SHA,
     TLS_DHE_DSS_EXPORT_WITH_DES40_CBC_SHA,
     TLS_DHE_RSA_EXPORT_WITH_DES40_CBC_SHA,
     TLS_DH_anon_EXPORT_WITH_RC4_40_MD5,
     TLS_DH_anon_EXPORT_WITH_DES40_CBC_SHA,
     TLS_KRB5_EXPORT_WITH_DES_CBC_40_SHA,
     TLS_KRB5_EXPORT_WITH_RC2_CBC_40_SHA,
     TLS_KRB5_EXPORT_WITH_RC4_40_SHA,
     TLS_KRB5_EXPORT_WITH_DES_CBC_40_MD5,
     TLS_KRB5_EXPORT_WITH_RC2_CBC_40_MD5,
     TLS_KRB5_EXPORT_WITH_RC4_40_MD5,
     TLS_RSA_EXPORT1024_WITH_RC4_56_MD5,
     TLS_RSA_EXPORT1024_WITH_RC2_CBC_56_MD5,
     TLS_RSA_EXPORT1024_WITH_DES_CBC_SHA,
     TLS_DHE_DSS_EXPORT1024_WITH_DES_CBC_SHA,
     TLS_RSA_EXPORT1024_WITH_RC4_56_SHA,
     TLS_DHE_DSS_EXPORT1024_WITH_RC4_56_SHA]"

definition RSAExportCiphers :: "uint16 list" where
  "RSAExportCiphers =
    [TLS_RSA_EXPORT_WITH_RC4_40_MD5,
     TLS_RSA_EXPORT_WITH_RC2_CBC_40_MD5,
     TLS_RSA_EXPORT_WITH_DES40_CBC_SHA,
     TLS_RSA_EXPORT1024_WITH_RC4_56_MD5,
     TLS_RSA_EXPORT1024_WITH_RC2_CBC_56_MD5,
     TLS_RSA_EXPORT1024_WITH_DES_CBC_SHA,
     TLS_RSA_EXPORT1024_WITH_RC4_56_SHA]"

definition RSA512ExportCiphers :: "uint16 list" where
  "RSA512ExportCiphers =
    [TLS_RSA_EXPORT_WITH_RC4_40_MD5,
     TLS_RSA_EXPORT_WITH_RC2_CBC_40_MD5,
     TLS_RSA_EXPORT_WITH_DES40_CBC_SHA]"

definition DHEExportCiphers :: "uint16 list" where
  "DHEExportCiphers =
    [TLS_DHE_RSA_EXPORT_WITH_DES40_CBC_SHA,
     TLS_DH_anon_EXPORT_WITH_RC4_40_MD5,
     TLS_DH_anon_EXPORT_WITH_DES40_CBC_SHA,
     TLS_DHE_DSS_EXPORT_WITH_DES40_CBC_SHA]"

definition DHE512ExportCiphers :: "uint16 list" where
  "DHE512ExportCiphers =
    []"

definition CBCSuiteIDList :: "uint16 list" where
  "CBCSuiteIDList =
    [TLS_RSA_WITH_3DES_EDE_CBC_SHA,
     TLS_RSA_WITH_AES_128_CBC_SHA,
     TLS_RSA_WITH_AES_256_CBC_SHA,
     TLS_ECDHE_ECDSA_WITH_AES_128_CBC_SHA,
     TLS_ECDHE_ECDSA_WITH_AES_256_CBC_SHA,
     TLS_ECDHE_RSA_WITH_3DES_EDE_CBC_SHA,
     TLS_ECDHE_RSA_WITH_AES_128_CBC_SHA,
     TLS_ECDHE_RSA_WITH_AES_256_CBC_SHA]"

definition ChromeCiphers :: "uint16 list" where
  "ChromeCiphers =
    [TLS_ECDHE_ECDSA_WITH_AES_128_GCM_SHA256,
     TLS_ECDHE_RSA_WITH_AES_128_GCM_SHA256,
     TLS_DHE_RSA_WITH_AES_128_GCM_SHA256,
     TLS_ECDHE_ECDSA_WITH_CHACHA20_POLY1305_SHA256,
     TLS_ECDHE_RSA_WITH_CHACHA20_POLY1305_SHA256,
     TLS_DHE_RSA_WITH_CHACHA20_POLY1305_SHA256,
     TLS_ECDHE_ECDSA_WITH_AES_256_CBC_SHA,
     TLS_ECDHE_RSA_WITH_AES_256_CBC_SHA,
     TLS_DHE_RSA_WITH_AES_256_CBC_SHA,
     TLS_ECDHE_ECDSA_WITH_AES_128_CBC_SHA,
     TLS_ECDHE_RSA_WITH_AES_128_CBC_SHA,
     TLS_DHE_RSA_WITH_AES_128_CBC_SHA,
     TLS_ECDHE_ECDSA_WITH_RC4_128_SHA,
     TLS_ECDHE_RSA_WITH_RC4_128_SHA,
     TLS_RSA_WITH_AES_128_GCM_SHA256,
     TLS_RSA_WITH_AES_256_CBC_SHA,
     TLS_RSA_WITH_AES_128_CBC_SHA,
     TLS_RSA_WITH_RC4_128_SHA,
     TLS_RSA_WITH_RC4_128_MD5,
     TLS_RSA_WITH_3DES_EDE_CBC_SHA]"

definition ChromeNoDHECiphers :: "uint16 list" where
  "ChromeNoDHECiphers =
    [TLS_ECDHE_ECDSA_WITH_AES_128_GCM_SHA256,
     TLS_ECDHE_RSA_WITH_AES_128_GCM_SHA256,
     TLS_ECDHE_ECDSA_WITH_CHACHA20_POLY1305_SHA256,
     TLS_ECDHE_RSA_WITH_CHACHA20_POLY1305_SHA256,
     TLS_ECDHE_ECDSA_WITH_AES_256_CBC_SHA,
     TLS_ECDHE_RSA_WITH_AES_256_CBC_SHA,
     TLS_ECDHE_ECDSA_WITH_AES_128_CBC_SHA,
     TLS_ECDHE_RSA_WITH_AES_128_CBC_SHA,
     TLS_ECDHE_ECDSA_WITH_RC4_128_SHA,
     TLS_ECDHE_RSA_WITH_RC4_128_SHA,
     TLS_RSA_WITH_AES_128_GCM_SHA256,
     TLS_RSA_WITH_AES_256_CBC_SHA,
     TLS_RSA_WITH_AES_128_CBC_SHA,
     TLS_RSA_WITH_RC4_128_SHA,
     TLS_RSA_WITH_RC4_128_MD5,
     TLS_RSA_WITH_3DES_EDE_CBC_SHA]"

definition FirefoxCiphers :: "uint16 list" where
  "FirefoxCiphers =
    [TLS_ECDHE_ECDSA_WITH_AES_128_GCM_SHA256,
     TLS_ECDHE_RSA_WITH_AES_128_GCM_SHA256,
     TLS_ECDHE_ECDSA_WITH_AES_256_CBC_SHA,
     TLS_ECDHE_ECDSA_WITH_AES_128_CBC_SHA,
     TLS_ECDHE_RSA_WITH_AES_128_CBC_SHA,
     TLS_ECDHE_RSA_WITH_AES_256_CBC_SHA,
     TLS_DHE_RSA_WITH_AES_128_CBC_SHA,
     TLS_DHE_DSS_WITH_AES_128_CBC_SHA,
     TLS_DHE_RSA_WITH_AES_256_CBC_SHA,
     TLS_RSA_WITH_AES_128_CBC_SHA,
     TLS_RSA_WITH_AES_256_CBC_SHA,
     TLS_RSA_WITH_3DES_EDE_CBC_SHA]"

definition SChannelSuites :: "uint16 list" where
  "SChannelSuites =
    [TLS_RSA_WITH_AES_128_GCM_SHA256,
     TLS_RSA_WITH_RC4_128_SHA]"

section \<open>The suite table\<close>

text \<open>The field \<open>id\<close> of the struct is named \<open>id16\<close>.  A nil function field is
  \<open>None\<close>.\<close>

record cipherSuite =
  id16 :: uint16
  keyLen :: int
  macLen :: int
  ivLen :: int
  ka :: "uint16 \<Rightarrow> keyAgreement"
  flags :: int
  cipher :: "(byte list \<Rightarrow> byte list \<Rightarrow> bool \<Rightarrow> panic + cipherValue) option"
  mac :: "(uint16 \<Rightarrow> byte list \<Rightarrow> macFunction) option"
  aead :: "(byte list \<Rightarrow> byte list \<Rightarrow> panic + fixedNonceAEAD) option"

text \<open>A composite literal of the table gives the nine fields by position;
  \<open>mkSuite\<close> is that literal.\<close>

definition mkSuite ::
  "uint16 \<Rightarrow> int \<Rightarrow> int \<Rightarrow> int \<Rightarrow> (uint16 \<Rightarrow> keyAgreement) \<Rightarrow> int
     \<Rightarrow> (byte list \<Rightarrow> byte list \<Rightarrow> bool \<Rightarrow> panic + cipherValue) option
     \<Rightarrow> (uint16 \<Rightarrow> byte list \<Rightarrow> macFunction) option
     \<Rightarrow> (byte list \<Rightarrow> byte list \<Rightarrow> panic + fixedNonceAEAD) option \<Rightarrow> cipherSuite" where
  "mkSuite i kl ml il k fl c m a =
     \<lparr>id16 = i, keyLen = kl, macLen = ml, ivLen = il, ka = k, flags = fl,
      cipher = c, mac = m, aead = a\<rparr>"

definition cipherSuites :: "externals \<Rightarrow> cipherSuite list" where
  "cipherSuites E =
    [mkSuite TLS_ECDHE_RSA_WITH_AES_128_GCM_SHA256 16 0 4 ecdheRSAKA (suiteECDHE OR suiteTLS12) None None (Some (aeadAESGCM E)),
     mkSuite TLS_ECDHE_ECDSA_WITH_AES_128_GCM_SHA256 16 0 4 ecdheECDSAKA (suiteECDHE OR suiteECDSA OR suiteTLS12) None None (Some (aeadAESGCM E)),
     mkSuite TLS_ECDHE_RSA_WITH_RC4_128_SHA 16 20 0 ecdheRSAKA suiteECDHE (Some cipherRC4) (Some (macSHA1 E)) None,
     mkSuite TLS_ECDHE_ECDSA_WITH_RC4_128_SHA 16 20 0 ecdheECDSAKA (suiteECDHE OR suiteECDSA) (Some cipherRC4) (Some (macSHA1 E)) None,
     mkSuite TLS_ECDHE_RSA_WITH_AES_128_CBC_SHA 16 20 16 ecdheRSAKA suiteECDHE (Some cipherAES) (Some (macSHA1 E)) None,
     mkSuite TLS_ECDHE_ECDSA_WITH_AES_128_CBC_SHA 16 20 16 ecdheECDSAKA (suiteECDHE OR suiteECDSA) (Some cipherAES) (Some (macSHA1 E)) None,
     mkSuite TLS_ECDHE_RSA_WITH_AES_256_CBC_SHA 32 20 16 ecdheRSAKA suiteECDHE (Some cipherAES) (Some (macSHA1 E)) None,
     mkSuite TLS_ECDHE_ECDSA_WITH_AES_256_CBC_SHA 32 20 16 ecdheECDSAKA (suiteECDHE OR suiteECDSA) (Some cipherAES) (Some (macSHA1 E)) None,
     mkSuite TLS_RSA_WITH_RC4_128_SHA 16 20 0 rsaKA 0 (Some cipherRC4) (Some (macSHA1 E)) None,
     mkSuite TLS_RSA_WITH_AES_128_GCM_SHA256 16 0 4 rsaKA 0 None None (Some (aeadAESGCM E)),
     mkSuite TLS_RSA_WITH_AES_128_CBC_SHA 16 20 16 rsaKA 0 (Some cipherAES) (Some (macSHA1 E)) None,
     mkSuite TLS_RSA_WITH_AES_256_CBC_SHA 32 20 16 rsaKA 0 (Some cipherAES) (Some (macSHA1 E)) None,
     mkSuite TLS_ECDHE_RSA_WITH_3DES_EDE_CBC_SHA 24 20 8 ecdheRSAKA suiteECDHE (Some cipher3DES) (Some (macSHA1 E)) None,
     mkSuite TLS_RSA_WITH_3DES_EDE_CBC_SHA 24 20 8 rsaKA 0 (Some cipher3DES) (Some (macSHA1 E)) None]"

section \<open>Negotiation and list membership\<close>

text \<open>The inner loop of \<open>mutualCipherSuite\<close>: the first suite of the table with the
  wanted id, or nil.\<close>

fun suiteById :: "cipherSuite list \<Rightarrow> uint16 \<Rightarrow> cipherSuite option" where
  "suiteById [] want = None"
| "suiteById (suite # rest) want =
     (if id16 suite = want then Some suite else suiteById rest want)"

fun mutualCipherSuite :: "externals \<Rightarrow> uint16 list \<Rightarrow> uint16 \<Rightarrow> cipherSuite option" where
  "mutualCipherSuite E [] want = None"
| "mutualCipherSuite E (i # have) want =
     (if i = want then suiteById (cipherSuites E) want
      else mutualCipherSuite E have want)"

fun cipherInList :: "uint16 \<Rightarrow> uint16 list \<Rightarrow> bool" where
  "cipherInList c [] = False"
| "cipherInList c (val # cipherList) =
     (if c = val then True else cipherInList c cipherList)"


section \<open>Call histories and a sample environment\<close>

text \<open>A history of calls made on one \<open>fixedNonceAEAD\<close>, to speak about the state an
  instance is in after any number of \<open>Seal\<close> and \<open>Open\<close> calls.  The arguments are
  \<open>out\<close>, \<open>nonce\<close>, the text and the additional data.\<close>

datatype aeadCall =
    SealCall "byte list" "byte list" "byte list" "byte list"
  | OpenCall "byte list" "byte list" "byte list" "byte list"

fun afterCall :: "fixedNonceAEAD \<Rightarrow> aeadCall \<Rightarrow> panic + fixedNonceAEAD" where
  "afterCall f (SealCall out nonce plaintext ad) =
     map_sum id fst (fixedNonceAEAD_Seal f out nonce plaintext ad)"
| "afterCall f (OpenCall out nonce ciphertext ad) =
     map_sum id fst (fixedNonceAEAD_Open f out nonce ciphertext ad)"

fun afterCalls :: "fixedNonceAEAD \<Rightarrow> aeadCall list \<Rightarrow> panic + fixedNonceAEAD" where
  "afterCalls f [] = Inr f"
| "afterCalls f (c # cs) =
     (case afterCall f c of Inl p \<Rightarrow> Inl p | Inr f' \<Rightarrow> afterCalls f' cs)"

text \<open>One concrete environment, for evaluating the model on concrete inputs.  The
  digest and the AEAD are stand-ins with the output sizes of SHA-1 and GCM; the AEAD
  seals by appending a 16-byte tag over key, nonce and additional data, and opens by
  checking and removing it.\<close>

definition sampleExternals :: externals where
  "sampleExternals =
     \<lparr>VersionSSL30 = 0x0300,
      sha1_digest = (\<lambda>m. replicate 20 (sum_list m + of_nat (length m))),
      gcm_seal = (\<lambda>k nonce plaintext ad.
         plaintext @ replicate 16 (sum_list k + sum_list nonce + sum_list ad)),
      gcm_open = (\<lambda>k nonce ciphertext ad.
         if length ciphertext \<ge> 16
            \<and> drop (length ciphertext - 16) ciphertext =
                replicate 16 (sum_list k + sum_list nonce + sum_list ad)
         then Some (take (length ciphertext - 16) ciphertext) else None)\<rparr>"

section \<open>The table and negotiation\<close>

lemma cipherSuites_ids:
  "map id16 (cipherSuites E) =
     [0xc02f, 0xc02b, 0xc011, 0xc007, 0xc013, 0xc009, 0xc014, 0xc00a,
      0x0005, 0x009c, 0x002f, 0x0035, 0xc012, 0x000a]"
  by (simp add: cipherSuites_def mkSuite_def suite_ids)

lemma cipherSuites_distinct_ids: "distinct (map id16 (cipherSuites E))"
  unfolding cipherSuites_ids by simp

lemma suiteById_None: "suiteById xs want = None \<longleftrightarrow> want \<notin> id16 ` set xs"
  by (induction xs) auto

lemma suiteById_Some:
  "distinct (map id16 xs) \<Longrightarrow>
   suiteById xs want = Some s \<longleftrightarrow> s \<in> set xs \<and> id16 s = want"
  by (induction xs) (auto simp: rev_image_eqI)

lemma mutualCipherSuite_unfold:
  "mutualCipherSuite E have want =
     (if want \<in> set have then suiteById (cipherSuites E) want else None)"
  by (induction "have") auto

text \<open>
  Claim C1.  \<open>mutualCipherSuite have want\<close> returns a suite exactly when \<open>want\<close>
  occurs in \<open>have\<close> and the table has a suite with that id, and the suite returned is
  the one of the table whose id is \<open>want\<close>; in every other case it returns nil.
  With \<open>have = [0x002f, 0xc013]\<close> and \<open>want = 0xc013\<close> it returns the suite with id
  \<open>0xc013\<close>, with \<open>have = [0x002f]\<close> it returns nil.
\<close>

theorem mutualCipherSuite_selects:
  "(mutualCipherSuite E have want = Some s
      \<longleftrightarrow> want \<in> set have \<and> s \<in> set (cipherSuites E) \<and> id16 s = want)
   \<and> (mutualCipherSuite E have want = None
      \<longleftrightarrow> want \<notin> set have \<or> want \<notin> id16 ` set (cipherSuites E))
   \<and> mutualCipherSuite E [0x002f, 0xc013] 0xc013 = Some (cipherSuites E ! 4)
   \<and> id16 (cipherSuites E ! 4) = 0xc013
   \<and> mutualCipherSuite E [0x002f] 0xc013 = None"
proof (intro conjI)
  show "mutualCipherSuite E have want = Some s
      \<longleftrightarrow> want \<in> set have \<and> s \<in> set (cipherSuites E) \<and> id16 s = want"
    by (simp add: mutualCipherSuite_unfold suiteById_Some [OF cipherSuites_distinct_ids])
  show "mutualCipherSuite E have want = None
      \<longleftrightarrow> want \<notin> set have \<or> want \<notin> id16 ` set (cipherSuites E)"
    by (simp add: mutualCipherSuite_unfold suiteById_None)
  show "mutualCipherSuite E [0x002f, 0xc013] 0xc013 = Some (cipherSuites E ! 4)"
    by (simp add: cipherSuites_def mkSuite_def suite_ids)
  show "id16 (cipherSuites E ! 4) = 0xc013"
    by (simp add: cipherSuites_def mkSuite_def suite_ids)
  show "mutualCipherSuite E [0x002f] 0xc013 = None"
    by simp
qed

theorem mutualCipherSuite_selects_witness:
  "mutualCipherSuite sampleExternals [0x0005, 0x0035] 0x0035 = Some (cipherSuites sampleExternals ! 11)
   \<and> mutualCipherSuite sampleExternals [0x0005, 0x0035] 0x002f = None
   \<and> mutualCipherSuite sampleExternals [0x0005, 0xcc14] 0xcc14 = None"
proof (intro conjI)
  have a: "(0x0035::uint16) \<in> set [0x0005, 0x0035]" by simp
  have b: "cipherSuites sampleExternals ! 11 \<in> set (cipherSuites sampleExternals)"
    by (simp add: cipherSuites_def)
  have c: "id16 (cipherSuites sampleExternals ! 11) = 0x0035"
    by (simp add: cipherSuites_def mkSuite_def suite_ids)
  show "mutualCipherSuite sampleExternals [0x0005, 0x0035] 0x0035 = Some (cipherSuites sampleExternals ! 11)"
    using mutualCipherSuite_selects [of sampleExternals "[0x0005, 0x0035]" "0x0035" "cipherSuites sampleExternals ! 11"] a b c
    by blast
  have d: "(0x002f::uint16) \<notin> set [0x0005, 0x0035]" by simp
  show "mutualCipherSuite sampleExternals [0x0005, 0x0035] 0x002f = None"
    using mutualCipherSuite_selects [of sampleExternals "[0x0005, 0x0035]" "0x002f"] d
    by blast
  have e: "(0xcc14::uint16) \<notin> id16 ` set (cipherSuites sampleExternals)"
    unfolding set_map [symmetric] cipherSuites_ids by simp
  show "mutualCipherSuite sampleExternals [0x0005, 0xcc14] 0xcc14 = None"
    using mutualCipherSuite_selects [of sampleExternals "[0x0005, 0xcc14]" "0xcc14"] e
    by blast
qed

text \<open>
  Claim C7.  Every entry of the table has exactly one of the two shapes: \<open>cipher\<close> and
  \<open>mac\<close> present and \<open>aead\<close> nil, or \<open>aead\<close> present and \<open>cipher\<close> and \<open>mac\<close> nil.
\<close>

theorem cipherSuites_one_shape:
  "\<forall>s \<in> set (cipherSuites E).
     (cipher s \<noteq> None \<and> mac s \<noteq> None \<and> aead s = None)
     \<or> (cipher s = None \<and> mac s = None \<and> aead s \<noteq> None)"
  by (simp add: cipherSuites_def mkSuite_def)

theorem cipherSuites_one_shape_witness:
  "cipher (cipherSuites sampleExternals ! 0) = None
   \<and> mac (cipherSuites sampleExternals ! 0) = None
   \<and> aead (cipherSuites sampleExternals ! 0) \<noteq> None
   \<and> cipher (cipherSuites sampleExternals ! 2) \<noteq> None
   \<and> mac (cipherSuites sampleExternals ! 2) \<noteq> None
   \<and> aead (cipherSuites sampleExternals ! 2) = None"
proof -
  have a: "cipherSuites sampleExternals ! 0 \<in> set (cipherSuites sampleExternals)"
    and b: "cipherSuites sampleExternals ! 2 \<in> set (cipherSuites sampleExternals)"
    by (simp_all add: cipherSuites_def)
  have c: "cipher (cipherSuites sampleExternals ! 0) = None"
    and d: "cipher (cipherSuites sampleExternals ! 2) \<noteq> None"
    by (simp_all add: cipherSuites_def mkSuite_def)
  note A = bspec [OF cipherSuites_one_shape [of sampleExternals] a]
  note B = bspec [OF cipherSuites_one_shape [of sampleExternals] b]
  from A c have "mac (cipherSuites sampleExternals ! 0) = None
      \<and> aead (cipherSuites sampleExternals ! 0) \<noteq> None"
    by simp
  moreover from B d have "mac (cipherSuites sampleExternals ! 2) \<noteq> None
      \<and> aead (cipherSuites sampleExternals ! 2) = None"
    by simp
  ultimately show ?thesis using c d by simp
qed

text \<open>
  Claim C8.  Every entry of the table with an \<open>aead\<close> factory has \<open>macLen = 0\<close> and
  \<open>ivLen = 4\<close>; the entry found for id \<open>0xc02f\<close> has \<open>ivLen = 4\<close>, \<open>macLen = 0\<close> and the
  \<open>aead\<close> factory present.
\<close>

theorem aead_suites_lengths:
  "(\<forall>s \<in> set (cipherSuites E). aead s \<noteq> None \<longrightarrow> macLen s = 0 \<and> ivLen s = 4)
   \<and> (\<exists>s. suiteById (cipherSuites E) 0xc02f = Some s
          \<and> mutualCipherSuite E [0xc02f] 0xc02f = Some s
          \<and> id16 s = TLS_ECDHE_RSA_WITH_AES_128_GCM_SHA256
          \<and> ivLen s = 4 \<and> macLen s = 0 \<and> aead s \<noteq> None)"
  by (simp add: cipherSuites_def mkSuite_def suite_ids)

theorem aead_suites_lengths_witness:
  "aead (cipherSuites sampleExternals ! 9) \<noteq> None
   \<and> macLen (cipherSuites sampleExternals ! 9) = 0
   \<and> ivLen (cipherSuites sampleExternals ! 9) = 4"
proof -
  have a: "cipherSuites sampleExternals ! 9 \<in> set (cipherSuites sampleExternals)"
    by (simp add: cipherSuites_def)
  have b: "aead (cipherSuites sampleExternals ! 9) \<noteq> None"
    by (simp add: cipherSuites_def mkSuite_def)
  from aead_suites_lengths [of sampleExternals] a b show ?thesis
    by blast
qed

text \<open>
  Claim C9.  \<open>cipherInList c cipherList\<close> is true if and only if \<open>c\<close> is an element of
  \<open>cipherList\<close>, for every list and so for every list of the catalog; it is false for an
  id that is not in the list although the table has a suite for it, as for
  \<open>TLS_RSA_WITH_RC4_128_SHA\<close> and \<open>CBCSuiteIDList\<close>.
\<close>

theorem cipherInList_iff_member:
  "(cipherInList c cipherList \<longleftrightarrow> c \<in> set cipherList)
   \<and> TLS_RSA_WITH_RC4_128_SHA \<in> id16 ` set (cipherSuites E)
   \<and> \<not> cipherInList TLS_RSA_WITH_RC4_128_SHA CBCSuiteIDList
   \<and> cipherInList TLS_RSA_WITH_AES_128_CBC_SHA CBCSuiteIDList"
proof (intro conjI)
  show "cipherInList c cipherList \<longleftrightarrow> c \<in> set cipherList"
    by (induction cipherList) auto
  show "TLS_RSA_WITH_RC4_128_SHA \<in> id16 ` set (cipherSuites E)"
    unfolding set_map [symmetric] cipherSuites_ids by (simp add: suite_ids)
  show "\<not> cipherInList TLS_RSA_WITH_RC4_128_SHA CBCSuiteIDList"
    by (simp add: CBCSuiteIDList_def suite_ids)
  show "cipherInList TLS_RSA_WITH_AES_128_CBC_SHA CBCSuiteIDList"
    by (simp add: CBCSuiteIDList_def suite_ids)
qed

theorem cipherInList_iff_member_witness:
  "cipherInList TLS_DHE_RSA_WITH_AES_128_CBC_SHA FirefoxCiphers
   \<and> \<not> cipherInList TLS_RSA_WITH_AES_128_GCM_SHA256 FirefoxCiphers"
proof -
  have a: "TLS_DHE_RSA_WITH_AES_128_CBC_SHA \<in> set FirefoxCiphers"
    by (simp add: FirefoxCiphers_def)
  have b: "TLS_RSA_WITH_AES_128_GCM_SHA256 \<notin> set FirefoxCiphers"
    by (simp add: FirefoxCiphers_def suite_ids)
  from cipherInList_iff_member [of TLS_DHE_RSA_WITH_AES_128_CBC_SHA FirefoxCiphers sampleExternals]
    cipherInList_iff_member [of TLS_RSA_WITH_AES_128_GCM_SHA256 FirefoxCiphers sampleExternals] a b
  show ?thesis by blast
qed

text \<open>
  Claim C10.  For every entry of the table whose \<open>mac\<close> factory is present, every
  protocol version and every MAC key, the \<open>macFunction\<close> that the factory returns has
  \<open>Size()\<close> equal to the entry's \<open>macLen\<close>, which is 20.
\<close>

theorem macSHA1_Size_is_macLen:
  "\<forall>s \<in> set (cipherSuites E). \<forall>m. mac s = Some m \<longrightarrow>
     (\<forall>version k. macFunction_Size (m version k) = macLen s) \<and> macLen s = 20"
  by (simp add: cipherSuites_def mkSuite_def macSHA1_def macFunction_Size_def
      ssl30MAC_Size_def tls10MAC_Size_def Hash_Size_def sha1_New_def hmac_New_def Let_def)

theorem macSHA1_Size_is_macLen_witness:
  "mac (cipherSuites sampleExternals ! 2) = Some (macSHA1 sampleExternals)
   \<and> macFunction_Size (macSHA1 sampleExternals 0x0300 [1, 2, 3]) =
       macLen (cipherSuites sampleExternals ! 2)
   \<and> macFunction_Size (macSHA1 sampleExternals 0x0301 [1, 2, 3]) = 20"
proof -
  have a: "cipherSuites sampleExternals ! 2 \<in> set (cipherSuites sampleExternals)"
    by (simp add: cipherSuites_def)
  have b: "mac (cipherSuites sampleExternals ! 2) = Some (macSHA1 sampleExternals)"
    by (simp add: cipherSuites_def mkSuite_def)
  note A = bspec [OF macSHA1_Size_is_macLen [of sampleExternals] a]
  from A b have "(\<forall>version k. macFunction_Size (macSHA1 sampleExternals version k) =
      macLen (cipherSuites sampleExternals ! 2)) \<and> macLen (cipherSuites sampleExternals ! 2) = 20"
    by simp
  with b show ?thesis by simp
qed

section \<open>The SSLv3 MAC\<close>

lemma length5_cases:
  "length (xs :: 'a list) = 5 \<Longrightarrow> \<exists>a b c d e. xs = [a, b, c, d, e]"
  by (auto simp: length_Suc_conv eval_nat_numeral)

lemma ssl30MAC_MAC_eval:
  assumes "length header = 5"
  shows "ssl30MAC_MAC s digestBuf seq header data =
    Inr (s\<lparr>ssl30_h := (ssl30_h s)\<lparr>hashBuf :=
             ssl30_key s @ take (nat (ssl30_padLength s)) ssl30Pad2 @
             hashDigest (ssl30_h s)
               (ssl30_key s @ take (nat (ssl30_padLength s)) ssl30Pad1 @ seq @
                [header ! 0] @ [header ! 3, header ! 4] @ data)\<rparr>\<rparr>,
         hashDigest (ssl30_h s)
           (ssl30_key s @ take (nat (ssl30_padLength s)) ssl30Pad2 @
            hashDigest (ssl30_h s)
              (ssl30_key s @ take (nat (ssl30_padLength s)) ssl30Pad1 @ seq @
               [header ! 0] @ [header ! 3, header ! 4] @ data)))"
proof -
  from assms obtain a b c d e where h: "header = [a, b, c, d, e]"
    using length5_cases by blast
  show ?thesis
    unfolding h ssl30MAC_MAC_def
    by (simp add: slice_def Let_def Hash_Reset_def Hash_Write_def Hash_Sum_def)
qed

text \<open>
  Claim C3.  For a 5-byte record header the SSLv3 MAC is the two-pass digest
  \<open>H (key @ pad2 @ H (key @ pad1 @ seq @ header[0] @ header[3..5] @ data))\<close>, for every
  key, sequence number and payload, whatever the hash held before and whatever
  \<open>digestBuf\<close> holds; bytes 1 and 2 of the header, the version, do not influence it.
\<close>

theorem ssl30MAC_MAC_two_pass:
  "length header = 5 \<Longrightarrow>
   map_sum id snd (ssl30MAC_MAC s digestBuf seq header data) =
     Inr (hashDigest (ssl30_h s)
           (ssl30_key s @ take (nat (ssl30_padLength s)) ssl30Pad2 @
            hashDigest (ssl30_h s)
              (ssl30_key s @ take (nat (ssl30_padLength s)) ssl30Pad1 @ seq @
               [header ! 0] @ [header ! 3, header ! 4] @ data)))
   \<and> (\<forall>v1 v2. map_sum id snd (ssl30MAC_MAC s digestBuf seq (header[1 := v1, 2 := v2]) data) =
         map_sum id snd (ssl30MAC_MAC s digestBuf seq header data))"
proof -
  assume len: "length header = 5"
  have "length (header[1 := v1, 2 := v2]) = 5" for v1 v2
    using len by simp
  then show ?thesis
    using len by (simp add: ssl30MAC_MAC_eval)
qed

theorem ssl30MAC_MAC_two_pass_witness:
  "length [22, 3, 0, 0, 1 :: byte] = 5
   \<and> map_sum id snd (ssl30MAC_MAC \<lparr>ssl30_h = sha1_New sampleExternals, ssl30_key = [1, 2]\<rparr>
        [] [0, 0, 0, 0, 0, 0, 0, 7] [22, 3, 0, 0, 1] [65]) = Inr (replicate 20 65)
   \<and> map_sum id snd (ssl30MAC_MAC \<lparr>ssl30_h = sha1_New sampleExternals, ssl30_key = [1, 2]\<rparr>
        [] [0, 0, 0, 0, 0, 0, 0, 7] [22, 3, 1, 0, 1] [65]) = Inr (replicate 20 65)"
proof -
  have len: "length [22, 3, 0, 0, 1 :: byte] = 5" by simp
  note A = ssl30MAC_MAC_two_pass [OF len,
      of "\<lparr>ssl30_h = sha1_New sampleExternals, ssl30_key = [1, 2]\<rparr>" "[]"
         "[0, 0, 0, 0, 0, 0, 0, 7]" "[65]"]
  from A have first: "map_sum id snd (ssl30MAC_MAC \<lparr>ssl30_h = sha1_New sampleExternals, ssl30_key = [1, 2]\<rparr>
        [] [0, 0, 0, 0, 0, 0, 0, 7] [22, 3, 0, 0, 1] [65]) = Inr (replicate 20 65)"
    by (simp add: sha1_New_def sampleExternals_def ssl30_padLength_def Hash_Size_def
        ssl30Pad1_def ssl30Pad2_def sum_list_replicate)
  from A have "map_sum id snd (ssl30MAC_MAC \<lparr>ssl30_h = sha1_New sampleExternals, ssl30_key = [1, 2]\<rparr>
        [] [0, 0, 0, 0, 0, 0, 0, 7] ([22, 3, 0, 0, 1][1 := 3, 2 := 1]) [65]) =
      map_sum id snd (ssl30MAC_MAC \<lparr>ssl30_h = sha1_New sampleExternals, ssl30_key = [1, 2]\<rparr>
        [] [0, 0, 0, 0, 0, 0, 0, 7] [22, 3, 0, 0, 1] [65])"
    by blast
  with first show ?thesis by simp
qed

lemma ssl30Pad_prefixes:
  "take 40 ssl30Pad1 = replicate 40 0x36"
  "take 48 ssl30Pad1 = replicate 48 0x36"
  "take 40 ssl30Pad2 = replicate 40 0x5c"
  "take 48 ssl30Pad2 = replicate 48 0x5c"
  by (simp_all add: ssl30Pad1_def ssl30Pad2_def eval_nat_numeral)

text \<open>
  Claim C4.  The pad length of the SSLv3 MAC is 40 when the digest size is 20 and 48
  otherwise; the pad of the first pass is that many bytes \<open>0x36\<close>, the pad of the second
  pass that many bytes \<open>0x5c\<close>.
\<close>

theorem ssl30MAC_pad_blocks:
  "ssl30_padLength s = (if ssl30MAC_Size s = 20 then 40 else 48)
   \<and> take (nat (ssl30_padLength s)) ssl30Pad1 =
       replicate (if ssl30MAC_Size s = 20 then 40 else 48) 0x36
   \<and> take (nat (ssl30_padLength s)) ssl30Pad2 =
       replicate (if ssl30MAC_Size s = 20 then 40 else 48) 0x5c
   \<and> (length header = 5 \<longrightarrow>
       map_sum id snd (ssl30MAC_MAC s digestBuf seq header data) =
         Inr (hashDigest (ssl30_h s)
               (ssl30_key s @ replicate (if ssl30MAC_Size s = 20 then 40 else 48) 0x5c @
                hashDigest (ssl30_h s)
                  (ssl30_key s @ replicate (if ssl30MAC_Size s = 20 then 40 else 48) 0x36 @
                   seq @ [header ! 0] @ [header ! 3, header ! 4] @ data))))"
proof (cases "ssl30MAC_Size s = 20")
  case True
  then have n: "ssl30_padLength s = 40"
    by (simp add: ssl30_padLength_def ssl30MAC_Size_def)
  show ?thesis
    by (simp add: True n ssl30MAC_MAC_eval ssl30Pad_prefixes)
next
  case False
  then have n: "ssl30_padLength s = 48"
    by (simp add: ssl30_padLength_def ssl30MAC_Size_def)
  show ?thesis
    by (simp add: False n ssl30MAC_MAC_eval ssl30Pad_prefixes)
qed

theorem ssl30MAC_pad_blocks_witness:
  "ssl30_padLength \<lparr>ssl30_h = sha1_New sampleExternals, ssl30_key = [1, 2]\<rparr> = 40
   \<and> ssl30_padLength \<lparr>ssl30_h = (sha1_New sampleExternals)\<lparr>hashSize := 16\<rparr>, ssl30_key = [1, 2]\<rparr> = 48
   \<and> length [22, 3, 0, 0, 1 :: byte] = 5
   \<and> map_sum id snd (ssl30MAC_MAC \<lparr>ssl30_h = sha1_New sampleExternals, ssl30_key = [1, 2]\<rparr>
        [] [0, 0, 0, 0, 0, 0, 0, 7] [22, 3, 0, 0, 1] [65]) = Inr (replicate 20 65)"
proof -
  have s20: "ssl30MAC_Size \<lparr>ssl30_h = sha1_New sampleExternals, ssl30_key = [1, 2]\<rparr> = 20"
    by (simp add: ssl30MAC_Size_def Hash_Size_def sha1_New_def)
  have s16: "ssl30MAC_Size \<lparr>ssl30_h = (sha1_New sampleExternals)\<lparr>hashSize := 16\<rparr>, ssl30_key = [1, 2]\<rparr> = 16"
    by (simp add: ssl30MAC_Size_def Hash_Size_def sha1_New_def)
  note A = ssl30MAC_pad_blocks [of "\<lparr>ssl30_h = sha1_New sampleExternals, ssl30_key = [1, 2]\<rparr>"
      "[22, 3, 0, 0, 1]" "[]" "[0, 0, 0, 0, 0, 0, 0, 7]" "[65]"]
  note B = ssl30MAC_pad_blocks [of
      "\<lparr>ssl30_h = (sha1_New sampleExternals)\<lparr>hashSize := 16\<rparr>, ssl30_key = [1, 2]\<rparr>"
      "[22, 3, 0, 0, 1]" "[]" "[0, 0, 0, 0, 0, 0, 0, 7]" "[65]"]
  from A have a1: "ssl30_padLength \<lparr>ssl30_h = sha1_New sampleExternals, ssl30_key = [1, 2]\<rparr> = 40"
    unfolding s20 by simp
  from B have b1: "ssl30_padLength \<lparr>ssl30_h = (sha1_New sampleExternals)\<lparr>hashSize := 16\<rparr>, ssl30_key = [1, 2]\<rparr> = 48"
    unfolding s16 by simp
  from A have a2: "map_sum id snd (ssl30MAC_MAC \<lparr>ssl30_h = sha1_New sampleExternals, ssl30_key = [1, 2]\<rparr>
        [] [0, 0, 0, 0, 0, 0, 0, 7] [22, 3, 0, 0, 1] [65]) = Inr (replicate 20 65)"
    unfolding s20 by (simp add: sha1_New_def sampleExternals_def sum_list_replicate)
  from a1 b1 a2 show ?thesis by simp
qed

section \<open>The fixed-nonce AEAD\<close>

lemma go_copy_length: "length (go_copy dst src) = length dst"
  by (simp add: go_copy_def Let_def)

lemma go_copy_same_length: "length src = length dst \<Longrightarrow> go_copy dst src = src"
  by (simp add: go_copy_def Let_def)

lemma copyLast8_twelve:
  "length buf = 12 \<Longrightarrow>
   copyLast8 buf nonce = Inr (take 4 buf @ go_copy (drop 4 buf) nonce)"
  by (simp add: copyLast8_def)

lemma copyLast8_explicit:
  "length buf = 12 \<Longrightarrow> length nonce = 8 \<Longrightarrow> copyLast8 buf nonce = Inr (take 4 buf @ nonce)"
  by (simp add: copyLast8_twelve go_copy_same_length)

lemma aeadAESGCM_Inr:
  assumes "aeadAESGCM E k fixedNonce = Inr f"
  shows "sealNonce f = go_copy (make_bytes 12) fixedNonce"
    and "openNonce f = go_copy (make_bytes 12) fixedNonce"
    and "wrapped f = \<lparr>aeadNonceSize = 12, aeadOverhead = 16,
           aeadSeal = (\<lambda>dst nonce plaintext ad. dst @ gcm_seal E k nonce plaintext ad),
           aeadOpen = (\<lambda>dst nonce ciphertext ad.
              case gcm_open E k nonce ciphertext ad of
                None \<Rightarrow> Inl AuthenticationFailed
              | Some plaintext \<Rightarrow> Inr (dst @ plaintext))\<rparr>"
  using assms
  by (auto simp: aeadAESGCM_def aes_NewCipher_def cipher_NewGCM_def Let_def
      split: if_splits)

lemma aeadAESGCM_buffers:
  assumes "aeadAESGCM E k fixedNonce = Inr f"
  shows "length (sealNonce f) = 12" and "length (openNonce f) = 12"
    and "take 4 (sealNonce f) = take 4 (openNonce f)"
    and "length fixedNonce = 4 \<Longrightarrow> take 4 (sealNonce f) = fixedNonce"
    and "length fixedNonce = 4 \<Longrightarrow> take 4 (openNonce f) = fixedNonce"
  by (simp_all add: aeadAESGCM_Inr [OF assms] go_copy_length make_bytes_def
      go_copy_def Let_def)

lemma afterCall_keeps:
  assumes "length (sealNonce f) = 12" and "length (openNonce f) = 12"
  shows "\<exists>f'. afterCall f c = Inr f' \<and> length (sealNonce f') = 12
           \<and> length (openNonce f') = 12
           \<and> take 4 (sealNonce f') = take 4 (sealNonce f)
           \<and> take 4 (openNonce f') = take 4 (openNonce f)
           \<and> wrapped f' = wrapped f"
  using assms
  by (cases c)
     (simp_all add: fixedNonceAEAD_Seal_def fixedNonceAEAD_Open_def copyLast8_twelve
        go_copy_length)

lemma afterCalls_keeps:
  assumes "length (sealNonce f) = 12" and "length (openNonce f) = 12"
  shows "\<exists>f'. afterCalls f cs = Inr f' \<and> length (sealNonce f') = 12
           \<and> length (openNonce f') = 12
           \<and> take 4 (sealNonce f') = take 4 (sealNonce f)
           \<and> take 4 (openNonce f') = take 4 (openNonce f)
           \<and> wrapped f' = wrapped f"
  using assms
proof (induction cs arbitrary: f)
  case Nil
  then show ?case by simp
next
  case (Cons c cs)
  from afterCall_keeps [OF Cons.prems, of c] obtain g where
    g: "afterCall f c = Inr g" "length (sealNonce g) = 12" "length (openNonce g) = 12"
       "take 4 (sealNonce g) = take 4 (sealNonce f)"
       "take 4 (openNonce g) = take 4 (openNonce f)" "wrapped g = wrapped f"
    by blast
  from Cons.IH [OF g(2) g(3)] obtain f' where
    "afterCalls g cs = Inr f'" "length (sealNonce f') = 12" "length (openNonce f') = 12"
       "take 4 (sealNonce f') = take 4 (sealNonce g)"
       "take 4 (openNonce f') = take 4 (openNonce g)" "wrapped f' = wrapped g"
    by blast
  with g show ?case by simp
qed

lemma sample_built:
  "aeadAESGCM sampleExternals (replicate 16 1) [1, 2, 3, 4] =
     Inr \<lparr>sealNonce = [1, 2, 3, 4, 0, 0, 0, 0, 0, 0, 0, 0],
          openNonce = [1, 2, 3, 4, 0, 0, 0, 0, 0, 0, 0, 0],
          wrapped = \<lparr>aeadNonceSize = 12, aeadOverhead = 16,
            aeadSeal = (\<lambda>dst nonce plaintext ad.
               dst @ gcm_seal sampleExternals (replicate 16 1) nonce plaintext ad),
            aeadOpen = (\<lambda>dst nonce ciphertext ad.
               case gcm_open sampleExternals (replicate 16 1) nonce ciphertext ad of
                 None \<Rightarrow> Inl AuthenticationFailed
               | Some plaintext \<Rightarrow> Inr (dst @ plaintext))\<rparr>\<rparr>"
  by (simp add: aeadAESGCM_def aes_NewCipher_def cipher_NewGCM_def go_copy_def
      make_bytes_def eval_nat_numeral)

lemma sample_gcm_round_trip:
  "gcm_open sampleExternals k n (gcm_seal sampleExternals k n plaintext ad) ad = Some plaintext"
  by (simp add: sampleExternals_def)

text \<open>
  Claim C5.  \<open>NonceSize()\<close> is 8 for every \<open>fixedNonceAEAD\<close>.  For an instance built by
  \<open>aeadAESGCM\<close> from a 4-byte salt, after any history of \<open>Seal\<close> and \<open>Open\<close> calls, a
  \<open>Seal\<close> or \<open>Open\<close> call with an 8-byte explicit nonce hands the wrapped AEAD the 12
  bytes \<open>salt @ nonce\<close>: the first 4 bytes are the salt, the last 8 the explicit nonce.
\<close>

theorem fixedNonceAEAD_nonce_layout:
  "fixedNonceAEAD_NonceSize f = 8
   \<and> (aeadAESGCM E k salt = Inr f0 \<and> length salt = 4 \<and> length nonce = 8 \<longrightarrow>
       (\<exists>f1. afterCalls f0 calls = Inr f1
          \<and> fixedNonceAEAD_Seal f1 out nonce plaintext ad =
              Inr (f1\<lparr>sealNonce := salt @ nonce\<rparr>,
                   out @ gcm_seal E k (salt @ nonce) plaintext ad)
          \<and> fixedNonceAEAD_Open f1 out nonce ciphertext ad =
              Inr (f1\<lparr>openNonce := salt @ nonce\<rparr>,
                   aeadOpen (wrapped f0) out (salt @ nonce) ciphertext ad)
          \<and> wrapped f1 = wrapped f0
          \<and> length (salt @ nonce) = 12
          \<and> take 4 (salt @ nonce) = salt
          \<and> drop 4 (salt @ nonce) = nonce))"
proof (intro conjI impI)
  show "fixedNonceAEAD_NonceSize f = 8"
    by (simp add: fixedNonceAEAD_NonceSize_def)
next
  assume a: "aeadAESGCM E k salt = Inr f0 \<and> length salt = 4 \<and> length nonce = 8"
  then have built: "aeadAESGCM E k salt = Inr f0" and ls: "length salt = 4"
    and ln: "length nonce = 8"
    by simp_all
  note b = aeadAESGCM_buffers [OF built]
  from afterCalls_keeps [OF b(1) b(2), of calls] obtain f1 where
    f1: "afterCalls f0 calls = Inr f1" "length (sealNonce f1) = 12"
        "length (openNonce f1) = 12" "take 4 (sealNonce f1) = take 4 (sealNonce f0)"
        "take 4 (openNonce f1) = take 4 (openNonce f0)" "wrapped f1 = wrapped f0"
    by blast
  have s: "take 4 (sealNonce f1) = salt" and opn: "take 4 (openNonce f1) = salt"
    using f1 b(4) [OF ls] b(5) [OF ls] by simp_all
  have "fixedNonceAEAD_Seal f1 out nonce plaintext ad =
              Inr (f1\<lparr>sealNonce := salt @ nonce\<rparr>,
                   out @ gcm_seal E k (salt @ nonce) plaintext ad)"
    by (simp add: fixedNonceAEAD_Seal_def copyLast8_explicit [OF f1(2) ln] s f1(6)
        aeadAESGCM_Inr(3) [OF built])
  moreover have "fixedNonceAEAD_Open f1 out nonce ciphertext ad =
              Inr (f1\<lparr>openNonce := salt @ nonce\<rparr>,
                   aeadOpen (wrapped f0) out (salt @ nonce) ciphertext ad)"
    by (simp add: fixedNonceAEAD_Open_def copyLast8_explicit [OF f1(3) ln] opn f1(6))
  ultimately show "\<exists>f1. afterCalls f0 calls = Inr f1
          \<and> fixedNonceAEAD_Seal f1 out nonce plaintext ad =
              Inr (f1\<lparr>sealNonce := salt @ nonce\<rparr>,
                   out @ gcm_seal E k (salt @ nonce) plaintext ad)
          \<and> fixedNonceAEAD_Open f1 out nonce ciphertext ad =
              Inr (f1\<lparr>openNonce := salt @ nonce\<rparr>,
                   aeadOpen (wrapped f0) out (salt @ nonce) ciphertext ad)
          \<and> wrapped f1 = wrapped f0
          \<and> length (salt @ nonce) = 12
          \<and> take 4 (salt @ nonce) = salt
          \<and> drop 4 (salt @ nonce) = nonce"
    using f1(1) f1(6) ls ln by simp
qed

theorem fixedNonceAEAD_nonce_layout_witness:
  "length [1, 2, 3, 4 :: byte] = 4 \<and> length [10, 11, 12, 13, 14, 15, 16, 17 :: byte] = 8
   \<and> (\<exists>f0 f1. aeadAESGCM sampleExternals (replicate 16 1) [1, 2, 3, 4] = Inr f0
        \<and> afterCalls f0 [SealCall [] [9, 9] [1] [], OpenCall [] [5, 5, 5] [] []] = Inr f1
        \<and> fixedNonceAEAD_Seal f1 [] [10, 11, 12, 13, 14, 15, 16, 17] [72, 105] [0] =
            Inr (f1\<lparr>sealNonce := [1, 2, 3, 4, 10, 11, 12, 13, 14, 15, 16, 17]\<rparr>,
                 [72, 105] @ replicate 16 134))"
proof -
  define f0 where "f0 = projr (aeadAESGCM sampleExternals (replicate 16 1) [1, 2, 3, 4])"
  have built: "aeadAESGCM sampleExternals (replicate 16 1) [1, 2, 3, 4] = Inr f0"
    unfolding f0_def sample_built by simp
  have h: "aeadAESGCM sampleExternals (replicate 16 1) [1, 2, 3, 4] = Inr f0
      \<and> length [1, 2, 3, 4 :: byte] = 4
      \<and> length [10, 11, 12, 13, 14, 15, 16, 17 :: byte] = 8"
    using built by simp
  from fixedNonceAEAD_nonce_layout [of f0 sampleExternals "replicate 16 1" "[1, 2, 3, 4]" f0
      "[10, 11, 12, 13, 14, 15, 16, 17]"
      "[SealCall [] [9, 9] [1] [], OpenCall [] [5, 5, 5] [] []]" "[]" "[72, 105]" "[0]" "[]"] h
  obtain f1 where
    f1: "afterCalls f0 [SealCall [] [9, 9] [1] [], OpenCall [] [5, 5, 5] [] []] = Inr f1"
      "fixedNonceAEAD_Seal f1 [] [10, 11, 12, 13, 14, 15, 16, 17] [72, 105] [0] =
         Inr (f1\<lparr>sealNonce := [1, 2, 3, 4] @ [10, 11, 12, 13, 14, 15, 16, 17]\<rparr>,
              [] @ gcm_seal sampleExternals (replicate 16 1)
                 ([1, 2, 3, 4] @ [10, 11, 12, 13, 14, 15, 16, 17]) [72, 105] [0])"
    by blast
  have g: "gcm_seal sampleExternals (replicate 16 1)
       ([1, 2, 3, 4] @ [10, 11, 12, 13, 14, 15, 16, 17]) [72, 105] [0] =
      [72, 105] @ replicate 16 134"
    by (simp add: sampleExternals_def sum_list_replicate)
  from built f1 show ?thesis
    unfolding g by auto
qed

text \<open>
  Claim C6.  For an instance built by \<open>aeadAESGCM\<close>, in the state after any history of
  calls, and an 8-byte explicit nonce: when the underlying AES-GCM opens what it sealed
  for this plaintext and additional data, \<open>Open\<close> applied to the output of \<open>Seal\<close> with
  the same nonce and additional data succeeds and returns the plaintext, on the same
  instance and on any other state of an instance built from the same key and salt.
\<close>

theorem fixedNonceAEAD_round_trip:
  assumes built: "aeadAESGCM E k fixedNonce = Inr f0"
    and ln: "length nonce = 8"
    and gcm: "\<forall>n. length n = 12 \<longrightarrow>
               gcm_open E k n (gcm_seal E k n plaintext ad) ad = Some plaintext"
  shows "\<exists>f1 f2 f3 g1 g2 sealed.
           afterCalls f0 calls = Inr f1
         \<and> fixedNonceAEAD_Seal f1 [] nonce plaintext ad = Inr (f2, sealed)
         \<and> fixedNonceAEAD_Open f2 [] nonce sealed ad = Inr (f3, Inr plaintext)
         \<and> afterCalls f0 calls' = Inr g1
         \<and> fixedNonceAEAD_Open g1 [] nonce sealed ad = Inr (g2, Inr plaintext)"
proof -
  note b = aeadAESGCM_buffers [OF built]
  note w = aeadAESGCM_Inr(3) [OF built]
  from afterCalls_keeps [OF b(1) b(2), of calls] obtain f1 where
    f1: "afterCalls f0 calls = Inr f1" "length (sealNonce f1) = 12"
        "length (openNonce f1) = 12" "take 4 (sealNonce f1) = take 4 (sealNonce f0)"
        "take 4 (openNonce f1) = take 4 (openNonce f0)" "wrapped f1 = wrapped f0"
    by blast
  from afterCalls_keeps [OF b(1) b(2), of calls'] obtain g1 where
    g1: "afterCalls f0 calls' = Inr g1" "length (sealNonce g1) = 12"
        "length (openNonce g1) = 12" "take 4 (sealNonce g1) = take 4 (sealNonce f0)"
        "take 4 (openNonce g1) = take 4 (openNonce f0)" "wrapped g1 = wrapped f0"
    by blast
  define n where "n = take 4 (sealNonce f0) @ nonce"
  have n12: "length n = 12"
    using b(1) ln by (simp add: n_def)
  from gcm n12 have rt: "gcm_open E k n (gcm_seal E k n plaintext ad) ad = Some plaintext"
    by blast
  define sealed where "sealed = gcm_seal E k n plaintext ad"
  have seal: "fixedNonceAEAD_Seal f1 [] nonce plaintext ad = Inr (f1\<lparr>sealNonce := n\<rparr>, sealed)"
    by (simp add: fixedNonceAEAD_Seal_def copyLast8_explicit [OF f1(2) ln] f1(4) f1(6) w
        n_def sealed_def)
  have open1: "fixedNonceAEAD_Open (f1\<lparr>sealNonce := n\<rparr>) [] nonce sealed ad =
      Inr (f1\<lparr>sealNonce := n, openNonce := n\<rparr>, Inr plaintext)"
    using rt
    by (simp add: fixedNonceAEAD_Open_def copyLast8_explicit [OF f1(3) ln] f1(5) f1(6) w
        n_def sealed_def b(3))
  have open2: "fixedNonceAEAD_Open g1 [] nonce sealed ad =
      Inr (g1\<lparr>openNonce := n\<rparr>, Inr plaintext)"
    using rt
    by (simp add: fixedNonceAEAD_Open_def copyLast8_explicit [OF g1(3) ln] g1(5) g1(6) w
        n_def sealed_def b(3))
  from f1(1) g1(1) seal open1 open2 show ?thesis
    by blast
qed

theorem fixedNonceAEAD_round_trip_witness:
  "length [10, 11, 12, 13, 14, 15, 16, 17 :: byte] = 8
   \<and> gcm_open sampleExternals (replicate 16 1) [1, 2, 3, 4, 10, 11, 12, 13, 14, 15, 16, 17]
         (gcm_seal sampleExternals (replicate 16 1)
            [1, 2, 3, 4, 10, 11, 12, 13, 14, 15, 16, 17] [72, 105] [0]) [0] = Some [72, 105]
   \<and> (\<exists>f0 f1 f2 f3 g1 g2 sealed.
         aeadAESGCM sampleExternals (replicate 16 1) [1, 2, 3, 4] = Inr f0
       \<and> afterCalls f0 [SealCall [] [9, 9] [1] []] = Inr f1
       \<and> fixedNonceAEAD_Seal f1 [] [10, 11, 12, 13, 14, 15, 16, 17] [72, 105] [0] =
           Inr (f2, sealed)
       \<and> fixedNonceAEAD_Open f2 [] [10, 11, 12, 13, 14, 15, 16, 17] sealed [0] =
           Inr (f3, Inr [72, 105])
       \<and> afterCalls f0 [] = Inr g1
       \<and> fixedNonceAEAD_Open g1 [] [10, 11, 12, 13, 14, 15, 16, 17] sealed [0] =
           Inr (g2, Inr [72, 105]))"
proof -
  define f0 where "f0 = projr (aeadAESGCM sampleExternals (replicate 16 1) [1, 2, 3, 4])"
  have built: "aeadAESGCM sampleExternals (replicate 16 1) [1, 2, 3, 4] = Inr f0"
    unfolding f0_def sample_built by simp
  have ln: "length [10, 11, 12, 13, 14, 15, 16, 17 :: byte] = 8" by simp
  have rt: "\<forall>n. length n = 12 \<longrightarrow>
         gcm_open sampleExternals (replicate 16 1) n
           (gcm_seal sampleExternals (replicate 16 1) n [72, 105] [0]) [0] = Some [72, 105]"
    by (simp add: sample_gcm_round_trip)
  from fixedNonceAEAD_round_trip [OF built ln rt, of "[SealCall [] [9, 9] [1] []]" "[]"]
    built ln sample_gcm_round_trip [of "replicate 16 1"
      "[1, 2, 3, 4, 10, 11, 12, 13, 14, 15, 16, 17]" "[72, 105]" "[0]"]
  show ?thesis by blast
qed

section \<open>The factories and key material of the wrong length\<close>

lemma cipherRC4_no_panic: "\<not> isl (cipherRC4 k iv isRead)"
  by (simp add: cipherRC4_def)

lemma cipher3DES_panics_iff:
  "isl (cipher3DES k iv isRead) \<longleftrightarrow> length k \<noteq> 24 \<or> length iv \<noteq> 8"
  by (simp add: cipher3DES_def des_NewTripleDESCipher_def dropError_def
      cipher_NewCBCDecrypter_def cipher_NewCBCEncrypter_def Block_BlockSize_def Let_def)

lemma cipherAES_panics_iff:
  "isl (cipherAES k iv isRead) \<longleftrightarrow> length k \<notin> {16, 24, 32} \<or> length iv \<noteq> 16"
  by (auto simp: cipherAES_def aes_NewCipher_def dropError_def
      cipher_NewCBCDecrypter_def cipher_NewCBCEncrypter_def Block_BlockSize_def Let_def)

lemma aeadAESGCM_panics_iff:
  "isl (aeadAESGCM E k fixedNonce) \<longleftrightarrow> length k \<notin> {16, 24, 32}"
  by (auto simp: aeadAESGCM_def aes_NewCipher_def cipher_NewGCM_def Let_def)

lemma suite_material_accepted:
  "\<forall>s \<in> set (cipherSuites E).
      (\<forall>f. cipher s = Some f \<longrightarrow> int (length k) = keyLen s \<longrightarrow>
            int (length iv) = ivLen s \<longrightarrow> \<not> isl (f k iv isRead))
    \<and> (\<forall>a. aead s = Some a \<longrightarrow> int (length k) = keyLen s \<longrightarrow>
            \<not> isl (a k fixedNonce))"
  by (simp add: cipherSuites_def mkSuite_def cipherRC4_no_panic cipher3DES_panics_iff
      cipherAES_panics_iff aeadAESGCM_panics_iff)

text \<open>
  Claim C2, as the code has it.  No factory compares its key material with the lengths
  of the suite; a factory panics exactly where the library constructor rejects the
  material and the factory goes on to use the result: \<open>cipher3DES\<close> iff the key is not
  24 bytes or the IV not 8, \<open>cipherAES\<close> iff the key is not 16, 24 or 32 bytes or the IV
  not 16, \<open>aeadAESGCM\<close> iff the key is not 16, 24 or 32 bytes, \<open>cipherRC4\<close> never.
  Material of the lengths of the suite is accepted by the suite's factory.
\<close>

theorem factories_abort_exactly:
  "\<not> isl (cipherRC4 k iv isRead)
   \<and> (isl (cipher3DES k iv isRead) \<longleftrightarrow> length k \<noteq> 24 \<or> length iv \<noteq> 8)
   \<and> (isl (cipherAES k iv isRead) \<longleftrightarrow> length k \<notin> {16, 24, 32} \<or> length iv \<noteq> 16)
   \<and> (isl (aeadAESGCM E k fixedNonce) \<longleftrightarrow> length k \<notin> {16, 24, 32})
   \<and> (\<forall>s \<in> set (cipherSuites E).
        (\<forall>f. cipher s = Some f \<longrightarrow> int (length k) = keyLen s \<longrightarrow>
              int (length iv) = ivLen s \<longrightarrow> \<not> isl (f k iv isRead))
      \<and> (\<forall>a. aead s = Some a \<longrightarrow> int (length k) = keyLen s \<longrightarrow>
              \<not> isl (a k fixedNonce)))"
  using cipherRC4_no_panic [of k iv isRead] cipher3DES_panics_iff [of k iv isRead]
    cipherAES_panics_iff [of k iv isRead] aeadAESGCM_panics_iff [of E k fixedNonce]
    suite_material_accepted [of E k iv isRead fixedNonce]
  by (intro conjI)

theorem factories_abort_exactly_witness:
  "isl (cipherAES (replicate 15 1) (replicate 16 0) False)
   \<and> \<not> isl (cipherAES (replicate 32 1) (replicate 16 0) False)
   \<and> isl (cipher3DES (replicate 24 1) (replicate 16 0) True)
   \<and> isl (aeadAESGCM sampleExternals (replicate 15 1) [1, 2, 3, 4])
   \<and> cipher (cipherSuites sampleExternals ! 12) = Some cipher3DES
   \<and> keyLen (cipherSuites sampleExternals ! 12) = 24
   \<and> ivLen (cipherSuites sampleExternals ! 12) = 8
   \<and> \<not> isl (cipher3DES (replicate 24 1) (replicate 8 0) True)"
proof -
  note A = factories_abort_exactly [of "replicate 15 1" "replicate 16 0" False sampleExternals
      "[1, 2, 3, 4]"]
  note B = factories_abort_exactly [of "replicate 32 1" "replicate 16 0" False sampleExternals
      "[1, 2, 3, 4]"]
  note C = factories_abort_exactly [of "replicate 24 1" "replicate 16 0" True sampleExternals
      "[1, 2, 3, 4]"]
  note D = factories_abort_exactly [of "replicate 24 1" "replicate 8 0" True sampleExternals
      "[1, 2, 3, 4]"]
  have m: "cipherSuites sampleExternals ! 12 \<in> set (cipherSuites sampleExternals)"
    by (simp add: cipherSuites_def)
  have s: "cipher (cipherSuites sampleExternals ! 12) = Some cipher3DES"
    "keyLen (cipherSuites sampleExternals ! 12) = 24"
    "ivLen (cipherSuites sampleExternals ! 12) = 8"
    by (simp_all add: cipherSuites_def mkSuite_def)
  from A have a: "isl (cipherAES (replicate 15 1) (replicate 16 0) False)"
    "isl (aeadAESGCM sampleExternals (replicate 15 1) [1, 2, 3, 4])"
    by simp_all
  from B have b: "\<not> isl (cipherAES (replicate 32 1) (replicate 16 0) False)"
    by simp
  from C have c: "isl (cipher3DES (replicate 24 1) (replicate 16 0) True)"
    by simp
  from D have "\<forall>s \<in> set (cipherSuites sampleExternals).
        (\<forall>f. cipher s = Some f \<longrightarrow> int (length (replicate 24 (1::byte))) = keyLen s \<longrightarrow>
              int (length (replicate 8 (0::byte))) = ivLen s \<longrightarrow>
              \<not> isl (f (replicate 24 1) (replicate 8 0) True))
      \<and> (\<forall>a. aead s = Some a \<longrightarrow> int (length (replicate 24 (1::byte))) = keyLen s \<longrightarrow>
              \<not> isl (a (replicate 24 1) [1, 2, 3, 4]))"
    by (elim conjE)
  from bspec [OF this m] s have d: "\<not> isl (cipher3DES (replicate 24 1) (replicate 8 0) True)"
    by simp
  from a b c d s show ?thesis by simp
qed

text \<open>
  Claim C2 as stated fails: \<open>cipherRC4\<close> builds a cipher from a 5-byte key although the
  suite has \<open>keyLen = 16\<close>, and \<open>aeadAESGCM\<close> takes a 1-byte fixed nonce although the
  suite has \<open>ivLen = 4\<close> and pads it with zeros.
\<close>

theorem factories_wrong_length_counterexample:
  "cipher (cipherSuites sampleExternals ! 8) = Some cipherRC4
   \<and> int (length (replicate 5 (1::byte))) \<noteq> keyLen (cipherSuites sampleExternals ! 8)
   \<and> \<not> isl (cipherRC4 (replicate 5 1) [] False)
   \<and> cipherRC4 (replicate 5 1) [] False = Inr (streamRC4 (Some (rc4State (replicate 5 1))))
   \<and> aead (cipherSuites sampleExternals ! 0) = Some (aeadAESGCM sampleExternals)
   \<and> int (length [7::byte]) \<noteq> ivLen (cipherSuites sampleExternals ! 0)
   \<and> \<not> isl (aeadAESGCM sampleExternals (replicate 16 1) [7])
   \<and> map_sum id sealNonce (aeadAESGCM sampleExternals (replicate 16 1) [7]) =
       Inr [7, 0, 0, 0, 0, 0, 0, 0, 0, 0, 0, 0]"
  by (simp add: cipherSuites_def mkSuite_def cipherRC4_def rc4_NewCipher_def dropError_def
      aeadAESGCM_def aes_NewCipher_def cipher_NewGCM_def go_copy_def make_bytes_def
      eval_nat_numeral)

end
